theory Spec2Isabelle
  imports Complex_Main
begin

section \<open>Data model\<close>

text \<open>
  The tables of the dealership back office, as the Sequelize models declare them
  (Order, OrderItem, Car, SparePart). The model declarations of Service and ServiceType
  are not among the source files: their records hold the columns the service controller
  reads and writes, and the four service statuses are those of the controller's
  transition table. Only the columns the order and service controllers read or write
  are kept.

  The source keeps every status as a string constrained by an ENUM column; each ENUM is a
  datatype here, so a request carrying a string outside the list is outside the model.
  Amounts are JavaScript numbers in the source and exact rationals here. Quantities and
  stock levels are INTEGER columns and unbounded integers here. Dates are milliseconds
  since the epoch (what \<open>Date.getTime()\<close> returns).
\<close>

datatype car_status = AVAILABLE | SOLD | RESERVED | MAINTENANCE

datatype order_status = PENDING | PROCESSING | SHIPPED | DELIVERED | CANCELLED

datatype payment_status = UNPAID | PARTIAL | PAID | REFUNDED

datatype service_status = SCHEDULED | IN_PROGRESS | COMPLETED | SERVICE_CANCELLED

type_synonym money = rat

text \<open>The column \<open>status\<close> of a car is named \<open>carStatus\<close>, that of a service
  \<open>serviceStatus\<close>, and the column \<open>notes\<close> of an order \<open>orderNotes\<close>: record fields
  share one name space. For the same reason the status CANCELLED of a service is the
  constructor \<open>SERVICE_CANCELLED\<close>.\<close>

record car =
  carStatus :: car_status

record spare_part =
  stock :: int
  minStockLevel :: int

record order_rec =
  userId :: int
  orderNumber :: string
  carId :: "int option"
  totalAmount :: money
  status :: order_status
  paymentStatus :: payment_status
  trackingNumber :: "string option"
  orderNotes :: "string option"
  discountAmount :: money
  taxAmount :: money
  shippingCost :: money

record order_item =
  orderId :: int
  sparePartId :: "int option"
  quantity :: int
  unitPrice :: money
  totalPrice :: money
  discount :: money

record service_type =
  basePrice :: money

record service =
  serviceUserId :: int
  serviceCarId :: int
  serviceTypeId :: int
  scheduledDate :: int
  serviceNotes :: "string option"
  serviceStatus :: service_status
  estimatedCost :: money
  completedDate :: "int option"
  actualCost :: "money option"
  technicianNotes :: "string option"

text \<open>
  The database: one map per table, keyed by primary key. Soft-deleted rows are invisible
  to every query the controllers make, so a table holds its visible rows only. Order
  items and services are lists, in insertion order, since the controllers iterate over
  them or search them.
\<close>

record db =
  users :: "int set"
  cars :: "int \<rightharpoonup> car"
  spare_parts :: "int \<rightharpoonup> spare_part"
  orders :: "int \<rightharpoonup> order_rec"
  order_items :: "order_item list"
  service_types :: "int \<rightharpoonup> service_type"
  services :: "(int \<times> service) list"

text \<open>
  Every failing response of the controllers, one constructor per response. In the words
  of the specification: the \<open>...NotFound\<close> responses (HTTP 404) are its NotFoundError,
  \<open>ValidationFailed\<close> and \<open>DateNotInFuture\<close> its ValidationError, \<open>CarNotAvailable\<close>
  and \<open>SchedulingConflict\<close> its ConflictError, \<open>NotEnoughStock\<close> its
  InsufficientStockError, \<open>CannotCancel\<close> its InvalidStateError, \<open>CannotTransition\<close>
  its InvalidTransitionError (the message names both states) and \<open>InternalError\<close>
  (HTTP 500, any exception caught by the handler) its InternalError. \<open>NoAnswer\<close> is
  no response at all: an exception thrown after the commit reaches the \<open>catch\<close> block,
  whose \<open>transaction.rollback()\<close> throws in turn on the committed transaction, so the
  handler ends without sending anything.
\<close>

datatype error =
    ValidationFailed
  | UserNotFound
  | CarNotFound
  | SparePartNotFound "int option"
  | OrderNotFound
  | ServiceNotFound
  | ServiceTypeNotFound
  | CarNotAvailable car_status
  | NotEnoughStock int int
  | CannotCancel order_status
  | CannotCancelService service_status
  | DateNotInFuture
  | SchedulingConflict
  | CannotTransition service_status service_status
  | InvalidOperation
  | InvalidQuantity
  | InternalError
  | NoAnswer

subsection \<open>JavaScript truthiness\<close>

text \<open>\<open>if (carId)\<close> is false for an absent id and for 0 (written out as a case
  distinction wherever the source tests an id); \<open>if (notes)\<close> is false for an absent
  string and for the empty one.\<close>

definition truthy_str :: "string option \<Rightarrow> bool" where
  "truthy_str x = (case x of None \<Rightarrow> False | Some s \<Rightarrow> s \<noteq> [])"

subsection \<open>Transactions\<close>

text \<open>
  \<open>sequelize.transaction()\<close> opens a transaction on the database. Every query that is
  passed the transaction reads and writes the transaction's own view; \<open>commit\<close> makes the
  view the database, \<open>rollback\<close> discards it. (Requests are handled one at a time here:
  the interleaving of concurrent transactions is not modelled.)
\<close>

record txn =
  snapshot :: db
  working :: db

definition transaction :: "db \<Rightarrow> txn" where
  "transaction d = \<lparr>snapshot = d, working = d\<rparr>"

definition rollback :: "txn \<Rightarrow> db" where
  "rollback t = snapshot t"

definition commit :: "txn \<Rightarrow> db" where
  "commit t = working t"

definition txn_write :: "(db \<Rightarrow> db) \<Rightarrow> txn \<Rightarrow> txn" where
  "txn_write f t = t\<lparr>working := f (working t)\<rparr>"

section \<open>Order controller\<close>

subsection \<open>Queries\<close>

definition Car_findByPk :: "txn \<Rightarrow> int \<Rightarrow> car option" where
  "Car_findByPk t i = cars (working t) i"

definition SparePart_findByPk :: "txn \<Rightarrow> int option \<Rightarrow> spare_part option" where
  "SparePart_findByPk t i = (case i of None \<Rightarrow> None | Some k \<Rightarrow> spare_parts (working t) k)"

text \<open>\<open>Car.update({status}, {where: {id}})\<close>: a bulk update, which changes nothing
  when no row has the id.\<close>

definition Car_update_status :: "int \<Rightarrow> car_status \<Rightarrow> txn \<Rightarrow> txn" where
  "Car_update_status i s =
     txn_write (\<lambda>w. case cars w i of
                   None \<Rightarrow> w
                 | Some c \<Rightarrow> w\<lparr>cars := (cars w)(i \<mapsto> c\<lparr>carStatus := s\<rparr>)\<rparr>)"

text \<open>\<open>sparePart.update({stock})\<close> on a loaded row: the model's validator
  \<open>stock: {min: 0}\<close> runs first and throws on a negative value.\<close>

definition SparePart_update_stock :: "int \<Rightarrow> int \<Rightarrow> txn \<Rightarrow> error + txn" where
  "SparePart_update_stock i n t =
     (if n < 0 then Inl InternalError
      else Inr (txn_write (\<lambda>w. case spare_parts w i of
                               None \<Rightarrow> w
                             | Some p \<Rightarrow> w\<lparr>spare_parts := (spare_parts w)(i \<mapsto> p\<lparr>stock := n\<rparr>)\<rparr>) t))"

text \<open>\<open>SparePart.increment({stock: n}, {where: {id}})\<close>: one UPDATE statement, no
  validation, nothing changed when no row has the id.\<close>

definition SparePart_increment :: "int \<Rightarrow> int \<Rightarrow> txn \<Rightarrow> txn" where
  "SparePart_increment i n =
     txn_write (\<lambda>w. case spare_parts w i of
                   None \<Rightarrow> w
                 | Some p \<Rightarrow> w\<lparr>spare_parts := (spare_parts w)(i \<mapsto> p\<lparr>stock := stock p + n\<rparr>)\<rparr>)"

text \<open>
  \<open>Order.create\<close>: the validators of the model (\<open>min: 0\<close> on the four amounts) throw on
  a negative amount; the primary key and the foreign key on \<open>carId\<close> are the database's.
  The id the AUTO_INCREMENT column assigns is an input. The unique index on
  \<open>orderNumber\<close> is not modelled: the generated number is taken to be new.
\<close>

definition Order_create :: "int \<Rightarrow> order_rec \<Rightarrow> txn \<Rightarrow> error + txn" where
  "Order_create oid ord t =
     (if totalAmount ord < 0 \<or> discountAmount ord < 0 \<or> taxAmount ord < 0 \<or> shippingCost ord < 0
      then Inl InternalError
      else if orders (working t) oid \<noteq> None then Inl InternalError
      else if (case carId ord of None \<Rightarrow> False | Some c \<Rightarrow> cars (working t) c = None)
      then Inl InternalError
      else Inr (txn_write (\<lambda>w. w\<lparr>orders := (orders w)(oid \<mapsto> ord)\<rparr>) t))"

text \<open>
  \<open>OrderItem.create\<close>: the hook \<open>beforeValidate\<close> recomputes \<open>totalPrice\<close> when
  \<open>unitPrice\<close> and \<open>quantity\<close> are truthy, then the validators (\<open>quantity\<close> at least 1,
  the three amounts at least 0) throw on a violation.
\<close>

definition beforeValidate :: "order_item \<Rightarrow> order_item" where
  "beforeValidate it =
     (if unitPrice it \<noteq> 0 \<and> quantity it \<noteq> 0
      then it\<lparr>totalPrice := unitPrice it * of_int (quantity it) - discount it\<rparr>
      else it)"

definition OrderItem_create :: "order_item \<Rightarrow> txn \<Rightarrow> error + txn" where
  "OrderItem_create it0 t =
     (let it = beforeValidate it0 in
      if quantity it < 1 \<or> unitPrice it < 0 \<or> totalPrice it < 0 \<or> discount it < 0
      then Inl InternalError
      else Inr (txn_write (\<lambda>w. w\<lparr>order_items := order_items w @ [it]\<rparr>) t))"

subsection \<open>createOrder\<close>

record item_request =
  i_sparePartId :: "int option"
  i_quantity :: int
  i_unitPrice :: money
  i_discount :: "money option"

record order_request =
  r_userId :: int
  r_carId :: "int option"
  r_items :: "item_request list"
  r_totalAmount :: money
  r_status :: "order_status option"
  r_paymentStatus :: "payment_status option"
  r_notes :: "string option"
  r_discountAmount :: "money option"
  r_taxAmount :: "money option"
  r_shippingCost :: "money option"

text \<open>What the handler takes from outside the request: the id the database assigns to
  the new order, and the order number made from the clock and a random number.\<close>

record order_env =
  new_order_id :: int
  new_order_number :: string

text \<open>The validators of the route \<open>POST /api/orders\<close> that constrain more than a type;
  the handler returns 400 when \<open>validationResult\<close> is not empty. (The validators
  are \<open>optional()\<close>: an item without \<open>quantity\<close> or \<open>unitPrice\<close> passes them; such
  an item has no counterpart in \<open>item_request\<close>.)\<close>

definition valid_order_request :: "order_request \<Rightarrow> bool" where
  "valid_order_request req =
     (0 \<le> r_totalAmount req \<and>
      list_all (\<lambda>i. 1 \<le> i_quantity i \<and> 0 \<le> i_unitPrice i) (r_items req))"

definition default_to :: "'a \<Rightarrow> 'a option \<Rightarrow> 'a" where
  "default_to d x = (case x of None \<Rightarrow> d | Some v \<Rightarrow> v)"

definition check_car :: "int option \<Rightarrow> txn \<Rightarrow> error option" where
  "check_car cid t =
     (case cid of
        None \<Rightarrow> None
      | Some c \<Rightarrow>
          if c = 0 then None
          else (case Car_findByPk t c of
                  None \<Rightarrow> Some CarNotFound
                | Some car \<Rightarrow>
                    if carStatus car \<noteq> AVAILABLE then Some (CarNotAvailable (carStatus car))
                    else None))"

text \<open>The loop over \<open>items\<close>. A failure carries the transaction as it stands, with the
  writes made for the earlier items.\<close>

fun process_items :: "int \<Rightarrow> item_request list \<Rightarrow> txn \<Rightarrow> (error \<times> txn) + txn" where
  "process_items oid [] t = Inr t"
| "process_items oid (item # items) t =
     (case i_sparePartId item of
        None \<Rightarrow> Inl (SparePartNotFound None, t)
      | Some pid \<Rightarrow>
          (case SparePart_findByPk t (Some pid) of
             None \<Rightarrow> Inl (SparePartNotFound (Some pid), t)
           | Some sparePart \<Rightarrow>
               if stock sparePart < i_quantity item
               then Inl (NotEnoughStock (stock sparePart) (i_quantity item), t)
               else
                 (case OrderItem_create
                         \<lparr>orderId = oid, sparePartId = Some pid, quantity = i_quantity item,
                          unitPrice = i_unitPrice item,
                          totalPrice = i_unitPrice item * of_int (i_quantity item)
                                        - default_to 0 (i_discount item),
                          discount = default_to 0 (i_discount item)\<rparr> t of
                    Inl e \<Rightarrow> Inl (e, t)
                  | Inr t1 \<Rightarrow>
                      (case SparePart_update_stock pid (stock sparePart - i_quantity item) t1 of
                         Inl e \<Rightarrow> Inl (e, t1)
                       | Inr t2 \<Rightarrow> process_items oid items t2))))"

definition createOrder_body :: "order_env \<Rightarrow> order_request \<Rightarrow> txn \<Rightarrow> (error \<times> txn) + txn" where
  "createOrder_body env req t =
     (if r_userId req \<notin> users (working t) then Inl (UserNotFound, t)
      else
        (case check_car (r_carId req) t of
           Some e \<Rightarrow> Inl (e, t)
         | None \<Rightarrow>
             (case Order_create (new_order_id env)
                     \<lparr>userId = r_userId req, orderNumber = new_order_number env,
                      carId = r_carId req, totalAmount = r_totalAmount req,
                      status = default_to PENDING (r_status req),
                      paymentStatus = default_to UNPAID (r_paymentStatus req),
                      trackingNumber = None, orderNotes = r_notes req,
                      discountAmount = default_to 0 (r_discountAmount req),
                      taxAmount = default_to 0 (r_taxAmount req),
                      shippingCost = default_to 0 (r_shippingCost req)\<rparr> t of
                Inl e \<Rightarrow> Inl (e, t)
              | Inr t1 \<Rightarrow>
                  (case process_items (new_order_id env) (r_items req) t1 of
                     Inl et \<Rightarrow> Inl et
                   | Inr t2 \<Rightarrow>
                       Inr (case r_carId req of
                              None \<Rightarrow> t2
                            | Some c \<Rightarrow> if c = 0 then t2 else Car_update_status c RESERVED t2)))))"

text \<open>
  The handler: a request the route's validators reject is answered before anything is
  read (the transaction is left open and never committed); every other failure rolls the
  transaction back, either at an early return or in the \<open>catch\<close> block; success commits.
\<close>

definition createOrder :: "order_env \<Rightarrow> order_request \<Rightarrow> db \<Rightarrow> (error + int) \<times> db" where
  "createOrder env req d =
     (if \<not> valid_order_request req then (Inl ValidationFailed, d)
      else
        (case createOrder_body env req (transaction d) of
           Inl (e, t) \<Rightarrow> (Inl e, rollback t)
         | Inr t \<Rightarrow> (Inr (new_order_id env), commit t)))"

subsection \<open>updateOrderStatus\<close>

record status_request =
  u_status :: "order_status option"
  u_paymentStatus :: "payment_status option"
  u_trackingNumber :: "string option"
  u_notes :: "string option"

fun order_status_name :: "order_status \<Rightarrow> string" where
  "order_status_name PENDING = ''PENDING''"
| "order_status_name PROCESSING = ''PROCESSING''"
| "order_status_name SHIPPED = ''SHIPPED''"
| "order_status_name DELIVERED = ''DELIVERED''"
| "order_status_name CANCELLED = ''CANCELLED''"

text \<open>
  The local variable \<open>carStatus\<close> of the handler: \<open>'SOLD'\<close> when the new status is
  DELIVERED, \<open>'AVAILABLE'\<close> when it is CANCELLED and \<open>previousStatus === 'RESERVED'\<close>,
  undefined otherwise. \<open>previousStatus\<close> is the status of the order, and the source
  compares it, as a string, with the name of a car status.
\<close>

definition new_carStatus :: "order_status \<Rightarrow> order_status \<Rightarrow> car_status option" where
  "new_carStatus st previousStatus =
     (if st = DELIVERED then Some SOLD
      else if st = CANCELLED \<and> order_status_name previousStatus = ''RESERVED'' then Some AVAILABLE
      else None)"

text \<open>The loop \<open>for (const item of orderItems)\<close> that gives the stock back.\<close>

fun restore_stock :: "order_item list \<Rightarrow> txn \<Rightarrow> txn" where
  "restore_stock [] t = t"
| "restore_stock (item # items) t =
     restore_stock items
       (case sparePartId item of
          None \<Rightarrow> t
        | Some pid \<Rightarrow> if pid = 0 then t else SparePart_increment pid (quantity item) t)"

definition OrderItem_findAll :: "int \<Rightarrow> txn \<Rightarrow> order_item list" where
  "OrderItem_findAll oid t = filter (\<lambda>it. orderId it = oid) (order_items (working t))"

text \<open>What the handler does inside \<open>if (status && status !== previousStatus)\<close>, apart
  from recording the new status in \<open>updateData\<close>.\<close>

definition status_side_effects :: "int \<Rightarrow> order_rec \<Rightarrow> order_status \<Rightarrow> txn \<Rightarrow> txn" where
  "status_side_effects oid ord st t =
     (let t1 = (case carId ord of
                  None \<Rightarrow> t
                | Some c \<Rightarrow>
                    if c = 0 then t
                    else (case new_carStatus st (status ord) of
                            None \<Rightarrow> t
                          | Some cs \<Rightarrow> Car_update_status c cs t))
      in if st = CANCELLED \<and> (status ord = PENDING \<or> status ord = PROCESSING)
         then restore_stock (OrderItem_findAll oid t1) t1
         else t1)"

definition nl :: string where
  "nl = [CHR 0x0A]"

definition text_of :: "string option \<Rightarrow> string" where
  "text_of x = (case x of None \<Rightarrow> [] | Some s \<Rightarrow> s)"

text \<open>\<open>old ? `${old}\n\n${entry}` : entry\<close>\<close>

definition append_note :: "string option \<Rightarrow> string \<Rightarrow> string" where
  "append_note old entry = (if truthy_str old then text_of old @ nl @ nl @ entry else entry)"

text \<open>The object \<open>updateData\<close>, applied to the order; \<open>stamp\<close> is
  \<open>new Date().toISOString()\<close>.\<close>

definition updateData :: "string \<Rightarrow> status_request \<Rightarrow> order_rec \<Rightarrow> order_rec" where
  "updateData stamp req ord =
     (let o1 = (case u_status req of
                  None \<Rightarrow> ord
                | Some st \<Rightarrow> if st \<noteq> status ord then ord\<lparr>status := st\<rparr> else ord);
          o2 = (case u_paymentStatus req of
                  None \<Rightarrow> o1
                | Some p \<Rightarrow> if p \<noteq> paymentStatus ord then o1\<lparr>paymentStatus := p\<rparr> else o1);
          o3 = (if truthy_str (u_trackingNumber req)
                then o2\<lparr>trackingNumber := u_trackingNumber req\<rparr> else o2)
      in if truthy_str (u_notes req)
         then o3\<lparr>orderNotes := Some (append_note (orderNotes ord) (stamp @ '': '' @ text_of (u_notes req)))\<rparr>
         else o3)"

text \<open>\<open>Object.keys(updateData).length > 0\<close>\<close>

definition has_updateData :: "status_request \<Rightarrow> order_rec \<Rightarrow> bool" where
  "has_updateData req ord =
     ((case u_status req of None \<Rightarrow> False | Some st \<Rightarrow> st \<noteq> status ord) \<or>
      (case u_paymentStatus req of None \<Rightarrow> False | Some p \<Rightarrow> p \<noteq> paymentStatus ord) \<or>
      truthy_str (u_trackingNumber req) \<or> truthy_str (u_notes req))"

definition Order_update :: "int \<Rightarrow> order_rec \<Rightarrow> txn \<Rightarrow> txn" where
  "Order_update oid ord = txn_write (\<lambda>w. w\<lparr>orders := (orders w)(oid \<mapsto> ord)\<rparr>)"

text \<open>The handler does not look at \<open>validationResult\<close>: the validators of the route
  \<open>PUT /api/orders/:id/status\<close> have no effect. On success it answers with the order
  as updated.\<close>

definition updateOrderStatus :: "string \<Rightarrow> int \<Rightarrow> status_request \<Rightarrow> db \<Rightarrow> (error + order_rec) \<times> db" where
  "updateOrderStatus stamp oid req d =
     (let t = transaction d in
      case orders (working t) oid of
        None \<Rightarrow> (Inl OrderNotFound, rollback t)
      | Some ord \<Rightarrow>
          (let t1 = (case u_status req of
                       None \<Rightarrow> t
                     | Some st \<Rightarrow>
                         if st \<noteq> status ord then status_side_effects oid ord st t else t);
               t2 = (if has_updateData req ord
                     then Order_update oid (updateData stamp req ord) t1 else t1)
           in (Inr (updateData stamp req ord), commit t2)))"

subsection \<open>cancelOrder\<close>

text \<open>
  The order is loaded with its car and its items, each item with its spare part
  (\<open>include\<close>), before anything is written: \<open>order.car\<close> and \<open>item.sparePart\<close> are null
  when the row is not there at that moment.
\<close>

fun cancel_restore :: "(int \<rightharpoonup> spare_part) \<Rightarrow> order_item list \<Rightarrow> txn \<Rightarrow> txn" where
  "cancel_restore loaded [] t = t"
| "cancel_restore loaded (item # items) t =
     cancel_restore loaded items
       (case sparePartId item of
          None \<Rightarrow> t
        | Some pid \<Rightarrow>
            if pid \<noteq> 0 \<and> loaded pid \<noteq> None then SparePart_increment pid (quantity item) t
            else t)"

definition cancellation_note :: "string \<Rightarrow> string option \<Rightarrow> string" where
  "cancellation_note stamp reason =
     ''CANCELLED on '' @ stamp @ '': '' @
       (if truthy_str reason then text_of reason else ''No reason provided'')"

definition cancelOrder :: "string \<Rightarrow> int \<Rightarrow> string option \<Rightarrow> db \<Rightarrow> (error + order_rec) \<times> db" where
  "cancelOrder stamp oid reason d =
     (let t = transaction d in
      case orders (working t) oid of
        None \<Rightarrow> (Inl OrderNotFound, rollback t)
      | Some ord \<Rightarrow>
          if status ord = DELIVERED \<or> status ord = CANCELLED
          then (Inl (CannotCancel (status ord)), rollback t)
          else
            (let ord' = ord\<lparr>status := CANCELLED,
                            orderNotes := Some (append_note (orderNotes ord)
                                                  (cancellation_note stamp reason))\<rparr>;
                 t1 = Order_update oid ord' t;
                 t2 = (case carId ord of
                         None \<Rightarrow> t1
                       | Some c \<Rightarrow>
                           if c \<noteq> 0 \<and> Car_findByPk t c \<noteq> None
                           then Car_update_status c AVAILABLE t1 else t1);
                 t3 = cancel_restore (spare_parts (working t)) (OrderItem_findAll oid t) t2
             in (Inr ord', commit t3)))"

section \<open>Spare part controller: adjustStock\<close>

record stock_request =
  a_quantity :: int
  a_operation :: string

record adjustment =
  previousStock :: int
  currentStock :: int
  lowStock :: bool

text \<open>
  No transaction here: the row is read and written directly. \<open>quantity\<close> must be a
  number greater than 0 (an integer here). The validator \<open>stock: {min: 0}\<close> runs in
  \<open>sparePart.update\<close>; an exception is answered with 500 by the \<open>catch\<close> block. The
  low-stock alert is only logged; it is returned here as a flag.
\<close>

definition adjustStock :: "int \<Rightarrow> stock_request \<Rightarrow> db \<Rightarrow> (error + adjustment) \<times> db" where
  "adjustStock pid req d =
     (if a_operation req \<noteq> ''add'' \<and> a_operation req \<noteq> ''subtract''
      then (Inl InvalidOperation, d)
      else if a_quantity req \<le> 0 then (Inl InvalidQuantity, d)
      else
        (case spare_parts d pid of
           None \<Rightarrow> (Inl (SparePartNotFound (Some pid)), d)
         | Some sparePart \<Rightarrow>
             if a_operation req \<noteq> ''add'' \<and> stock sparePart < a_quantity req
             then (Inl (NotEnoughStock (stock sparePart) (a_quantity req)), d)
             else
               (let newStock = (if a_operation req = ''add''
                                then stock sparePart + a_quantity req
                                else stock sparePart - a_quantity req)
                in if newStock < 0 then (Inl InternalError, d)
                   else (Inr \<lparr>previousStock = (if a_operation req = ''add''
                                                then newStock - a_quantity req
                                                else newStock + a_quantity req),
                              currentStock = newStock,
                              lowStock = (newStock \<le> minStockLevel sparePart)\<rparr>,
                         d\<lparr>spare_parts := (spare_parts d)(pid \<mapsto> sparePart\<lparr>stock := newStock\<rparr>)\<rparr>))))"

section \<open>Sequences of engine operations\<close>

datatype operation =
    CreateOrder order_env order_request
  | UpdateOrderStatus string int status_request
  | CancelOrder string int "string option"
  | AdjustStock int stock_request

text \<open>The database after an operation, whether the operation succeeded or failed.\<close>

fun apply_operation :: "operation \<Rightarrow> db \<Rightarrow> db" where
  "apply_operation (CreateOrder env req) d = snd (createOrder env req d)"
| "apply_operation (UpdateOrderStatus stamp oid req) d = snd (updateOrderStatus stamp oid req d)"
| "apply_operation (CancelOrder stamp oid reason) d = snd (cancelOrder stamp oid reason d)"
| "apply_operation (AdjustStock pid req) d = snd (adjustStock pid req d)"

text \<open>The databases after each operation of a sequence, in order.\<close>

fun states_after :: "operation list \<Rightarrow> db \<Rightarrow> db list" where
  "states_after [] d = []"
| "states_after (x # xs) d = apply_operation x d # states_after xs (apply_operation x d)"

section \<open>Service controller\<close>







subsection \<open>The answer after the commit\<close>

text \<open>
  After \<open>transaction.commit()\<close>, createService and updateService read the service
  again, with its user, car and service type, to build the answer. Of the car they ask
  for the attributes \<open>id\<close>, \<open>make\<close>, \<open>model\<close>, \<open>year\<close>, \<open>vin\<close> and \<open>licensePlate\<close>. The
  query throws when an attribute is no column of the Car model (nor of the table
  \<open>cars\<close> of the schema); the exception is thrown after the commit, so what was
  written stays written and nothing is answered.
\<close>

definition Car_columns :: "string list" where
  "Car_columns =
     [''id'', ''vin'', ''make'', ''model'', ''year'', ''type'', ''price'', ''mileage'', ''color'',
      ''transmission'', ''fuelType'', ''engineSize'', ''description'', ''features'', ''images'',
      ''status'', ''isFeatured'', ''exteriorCondition'', ''interiorCondition'',
      ''previousOwners'', ''serviceHistory'', ''createdAt'', ''updatedAt'', ''deletedAt'']"

definition service_car_attributes :: "string list" where
  "service_car_attributes = [''id'', ''make'', ''model'', ''year'', ''vin'', ''licensePlate'']"

definition answer_with_service :: "'a \<Rightarrow> error + 'a" where
  "answer_with_service x =
     (if list_all (\<lambda>a. a \<in> set Car_columns) service_car_attributes then Inr x
      else Inl NoAnswer)"

subsection \<open>createService\<close>






subsection \<open>updateService\<close>









subsection \<open>cancelService\<close>


section \<open>Quantities used to state the properties\<close>

text \<open>The sum of the quantities of the items of a list that are for a given spare
  part.\<close>

definition restock_total :: "int \<Rightarrow> order_item list \<Rightarrow> int" where
  "restock_total pid items = sum_list (map quantity (filter (\<lambda>it. sparePartId it = Some pid) items))"

text \<open>
  No spare part has a negative stock; no stored order item has a negative quantity (the
  validator \<open>quantity: {min: 1}\<close> of the OrderItem model lets no such row be written).
\<close>

definition stock_nonneg :: "db \<Rightarrow> bool" where
  "stock_nonneg d = (\<forall>pid p. spare_parts d pid = Some p \<longrightarrow> 0 \<le> stock p)"

definition items_wellformed :: "db \<Rightarrow> bool" where
  "items_wellformed d = list_all (\<lambda>it. 0 \<le> quantity it) (order_items d)"




section \<open>Example data\<close>

text \<open>A small database and requests on it, for the concrete instances below.\<close>

definition shop :: db where
  "shop = \<lparr>users = {1},
           cars = [1 \<mapsto> \<lparr>carStatus = AVAILABLE\<rparr>, 2 \<mapsto> \<lparr>carStatus = MAINTENANCE\<rparr>],
           spare_parts = [1 \<mapsto> \<lparr>stock = 5, minStockLevel = 5\<rparr>,
                          2 \<mapsto> \<lparr>stock = 1, minStockLevel = 0\<rparr>],
           orders = Map.empty, order_items = [],
           service_types = [1 \<mapsto> \<lparr>basePrice = 80\<rparr>], services = []\<rparr>"

definition order_of :: "int \<Rightarrow> int option \<Rightarrow> (int \<times> int) list \<Rightarrow> order_request" where
  "order_of u c its =
     \<lparr>r_userId = u, r_carId = c,
      r_items = map (\<lambda>(p, q). \<lparr>i_sparePartId = Some p, i_quantity = q, i_unitPrice = 10,
                               i_discount = None\<rparr>) its,
      r_totalAmount = 0, r_status = None, r_paymentStatus = None, r_notes = None,
      r_discountAmount = None, r_taxAmount = None, r_shippingCost = None\<rparr>"

definition env1 :: order_env where
  "env1 = \<lparr>new_order_id = 1, new_order_number = ''ORD-00000001-001''\<rparr>"

definition order1 :: order_rec where
  "order1 = \<lparr>userId = 1, orderNumber = ''ORD-00000001-001'', carId = Some 1, totalAmount = 0,
             status = PENDING, paymentStatus = UNPAID, trackingNumber = None,
             orderNotes = None, discountAmount = 0, taxAmount = 0, shippingCost = 0\<rparr>"

definition booked :: db where
  "booked = \<lparr>users = {1},
             cars = [1 \<mapsto> \<lparr>carStatus = RESERVED\<rparr>, 2 \<mapsto> \<lparr>carStatus = MAINTENANCE\<rparr>],
             spare_parts = [1 \<mapsto> \<lparr>stock = 3, minStockLevel = 5\<rparr>,
                            2 \<mapsto> \<lparr>stock = 1, minStockLevel = 0\<rparr>],
             orders = [1 \<mapsto> order1],
             order_items = [\<lparr>orderId = 1, sparePartId = Some 1, quantity = 2, unitPrice = 10,
                             totalPrice = 20, discount = 0\<rparr>],
             service_types = [1 \<mapsto> \<lparr>basePrice = 80\<rparr>], services = []\<rparr>"

definition status_req :: "order_status \<Rightarrow> status_request" where
  "status_req st = \<lparr>u_status = Some st, u_paymentStatus = None, u_trackingNumber = None,
                    u_notes = Some ''by phone''\<rparr>"

text \<open>The database \<open>booked\<close> after the car of the order has been put in maintenance
  (the car controller lets staff set the status of a car).\<close>

definition in_workshop :: db where
  "in_workshop = booked\<lparr>cars := (cars booked)(1 \<mapsto> \<lparr>carStatus = MAINTENANCE\<rparr>)\<rparr>"





section \<open>Properties of createOrder\<close>

text \<open>An item the loop cannot fill on the given spare part table: its part is missing,
  or has less stock than the item asks for.\<close>

definition unfillable :: "(int \<rightharpoonup> spare_part) \<Rightarrow> item_request \<Rightarrow> bool" where
  "unfillable parts item =
     (case i_sparePartId item of
        None \<Rightarrow> True
      | Some pid \<Rightarrow> (case parts pid of None \<Rightarrow> True | Some p \<Rightarrow> stock p < i_quantity item))"

lemma snapshot_txn_write [simp]: "snapshot (txn_write f t) = snapshot t"
  by (simp add: txn_write_def)

lemma working_txn_write [simp]: "working (txn_write f t) = f (working t)"
  by (simp add: txn_write_def)

lemma OrderItem_create_snapshot:
  "OrderItem_create it t = Inr t' \<Longrightarrow> snapshot t' = snapshot t"
  by (auto simp: OrderItem_create_def Let_def split: if_splits)

lemma OrderItem_create_parts:
  "OrderItem_create it t = Inr t' \<Longrightarrow> spare_parts (working t') = spare_parts (working t)"
  by (auto simp: OrderItem_create_def Let_def split: if_splits)

lemma SparePart_update_stock_snapshot:
  "SparePart_update_stock i n t = Inr t' \<Longrightarrow> snapshot t' = snapshot t"
  by (auto simp: SparePart_update_stock_def split: if_splits)

lemma SparePart_update_stock_parts:
  "SparePart_update_stock i n t = Inr t' \<Longrightarrow> spare_parts (working t) i = Some p \<Longrightarrow>
     spare_parts (working t') = (spare_parts (working t))(i \<mapsto> p\<lparr>stock := n\<rparr>)"
  by (auto simp: SparePart_update_stock_def split: if_splits)

lemma Order_create_snapshot:
  "Order_create oid ord t = Inr t' \<Longrightarrow> snapshot t' = snapshot t"
  by (auto simp: Order_create_def split: if_splits)

lemma Order_create_parts:
  "Order_create oid ord t = Inr t' \<Longrightarrow> spare_parts (working t') = spare_parts (working t)"
  by (auto simp: Order_create_def split: if_splits)

lemma Car_update_status_snapshot [simp]:
  "snapshot (Car_update_status c s t) = snapshot t"
  by (simp add: Car_update_status_def)

lemma process_items_snapshot_Inl:
  "process_items oid items t = Inl (e, t') \<Longrightarrow> snapshot t' = snapshot t"
proof (induction items arbitrary: t)
  case Nil
  then show ?case by simp
next
  case (Cons item items)
  then show ?case
    by (auto split: option.splits if_splits sum.splits
        dest!: OrderItem_create_snapshot SparePart_update_stock_snapshot)
qed

lemma process_items_snapshot_Inr:
  "process_items oid items t = Inr t' \<Longrightarrow> snapshot t' = snapshot t"
proof (induction items arbitrary: t)
  case Nil
  then show ?case by simp
next
  case (Cons item items)
  then show ?case
    by (auto split: option.splits if_splits sum.splits
        dest!: OrderItem_create_snapshot SparePart_update_stock_snapshot)
qed

lemma createOrder_body_snapshot_Inl:
  "createOrder_body env req t = Inl (e, t') \<Longrightarrow> snapshot t' = snapshot t"
  by (auto simp: createOrder_body_def split: if_splits option.splits sum.splits
      dest!: Order_create_snapshot process_items_snapshot_Inl)

lemma createOrder_failure_unchanged:
  "isl (fst (createOrder env req d)) \<Longrightarrow> snd (createOrder env req d) = d"
  by (auto simp: createOrder_def rollback_def transaction_def split: if_splits sum.splits
      dest!: createOrder_body_snapshot_Inl)

lemma process_items_fails:
  "list_all (\<lambda>i. 1 \<le> i_quantity i) items \<Longrightarrow> item \<in> set items \<Longrightarrow>
   unfillable (spare_parts (working t)) item \<Longrightarrow> isl (process_items oid items t)"
proof (induction items arbitrary: t)
  case Nil
  then show ?case by simp
next
  case (Cons x xs)
  show ?case
  proof (cases "process_items oid (x # xs) t")
    case (Inl a)
    then show ?thesis by simp
  next
    case (Inr t')
    then obtain pid p t1 t2 where
      x: "i_sparePartId x = Some pid" "spare_parts (working t) pid = Some p"
         "\<not> stock p < i_quantity x"
      and t1: "OrderItem_create \<lparr>orderId = oid, sparePartId = Some pid, quantity = i_quantity x,
                          unitPrice = i_unitPrice x,
                          totalPrice = i_unitPrice x * of_int (i_quantity x)
                                        - default_to 0 (i_discount x),
                          discount = default_to 0 (i_discount x)\<rparr> t = Inr t1"
      and t2: "SparePart_update_stock pid (stock p - i_quantity x) t1 = Inr t2"
      and rest: "process_items oid xs t2 = Inr t'"
      by (auto simp: SparePart_findByPk_def split: option.splits if_splits sum.splits)
    have parts2: "spare_parts (working t2) = (spare_parts (working t))(pid \<mapsto> p\<lparr>stock := stock p - i_quantity x\<rparr>)"
      using SparePart_update_stock_parts[OF t2] OrderItem_create_parts[OF t1] x by simp
    have qx: "1 \<le> i_quantity x" using Cons.prems(1) by simp
    have "item \<noteq> x" using x Cons.prems(3) by (auto simp: unfillable_def)
    then have mem: "item \<in> set xs" using Cons.prems(2) by simp
    have "unfillable (spare_parts (working t2)) item"
      using Cons.prems(3) qx x unfolding unfillable_def parts2
      by (auto split: option.splits)
    then have "isl (process_items oid xs t2)"
      using Cons.IH[OF _ mem] Cons.prems(1) by simp
    then show ?thesis using rest by simp
  qed
qed


lemma createOrder_body_unfillable:
  assumes "valid_order_request req" "item \<in> set (r_items req)"
    "unfillable (spare_parts (working t)) item"
  shows "isl (createOrder_body env req t)"
proof (cases "createOrder_body env req t")
  case (Inl a)
  then show ?thesis by simp
next
  case (Inr t')
  then obtain t1 where t1: "Order_create (new_order_id env)
                     \<lparr>userId = r_userId req, orderNumber = new_order_number env,
                      carId = r_carId req, totalAmount = r_totalAmount req,
                      status = default_to PENDING (r_status req),
                      paymentStatus = default_to UNPAID (r_paymentStatus req),
                      trackingNumber = None, orderNotes = r_notes req,
                      discountAmount = default_to 0 (r_discountAmount req),
                      taxAmount = default_to 0 (r_taxAmount req),
                      shippingCost = default_to 0 (r_shippingCost req)\<rparr> t = Inr t1"
    and ok: "\<not> isl (process_items (new_order_id env) (r_items req) t1)"
    by (auto simp: createOrder_body_def split: if_splits option.splits sum.splits)
  have "list_all (\<lambda>i. 1 \<le> i_quantity i) (r_items req)"
    using assms(1) by (simp add: valid_order_request_def list_all_iff)
  moreover have "unfillable (spare_parts (working t1)) item"
    using assms(3) Order_create_parts[OF t1] by simp
  ultimately have "isl (process_items (new_order_id env) (r_items req) t1)"
    using process_items_fails assms(2) by blast
  with ok show ?thesis by simp
qed

lemma createOrder_unfillable:
  assumes "item \<in> set (r_items req)" "unfillable (spare_parts d) item"
  shows "isl (fst (createOrder env req d))"
proof (cases "valid_order_request req")
  case False
  then show ?thesis by (simp add: createOrder_def)
next
  case True
  have "isl (createOrder_body env req (transaction d))"
    using createOrder_body_unfillable[OF True assms(1)] assms(2)
    by (simp add: transaction_def)
  then show ?thesis
    using True by (auto simp: createOrder_def split: sum.splits)
qed

lemma createOrder_user_missing:
  "r_userId req \<notin> users d \<Longrightarrow> isl (fst (createOrder env req d))"
  by (simp add: createOrder_def createOrder_body_def transaction_def)

lemma createOrder_car_unavailable:
  assumes "r_carId req = Some c" "c \<noteq> 0"
    "case cars d c of None \<Rightarrow> True | Some car \<Rightarrow> carStatus car \<noteq> AVAILABLE"
  shows "isl (fst (createOrder env req d))"
proof -
  have "check_car (r_carId req) (transaction d) \<noteq> None"
    using assms by (auto simp: check_car_def Car_findByPk_def transaction_def split: option.splits)
  then show ?thesis
    by (auto simp: createOrder_def createOrder_body_def split: option.splits)
qed

text \<open>
  Claim C1. Every call of createOrder fails when the user does not exist, when a car id is
  given and the car does not exist or is not AVAILABLE, when an item names a spare part
  that does not exist, and when the quantity of an item exceeds the stock of its spare
  part as it is before the call; and after every failing call, whatever the failure and
  however many items were processed before it, the database is the one before the call:
  stocks, car statuses, orders and order items.
  (An id of 0 is no row of an AUTO_INCREMENT table, and \<open>if (carId)\<close> takes it as no car
  given.)
\<close>

theorem createOrder_fails_atomically:
  "(r_userId req \<notin> users d \<longrightarrow> isl (fst (createOrder env req d))) \<and>
   (\<forall>c. r_carId req = Some c \<and> c \<noteq> 0 \<and> cars d c = None
          \<longrightarrow> isl (fst (createOrder env req d))) \<and>
   (\<forall>c car. r_carId req = Some c \<and> c \<noteq> 0 \<and> cars d c = Some car \<and> carStatus car \<noteq> AVAILABLE
          \<longrightarrow> isl (fst (createOrder env req d))) \<and>
   (\<forall>item. item \<in> set (r_items req) \<and>
           SparePart_findByPk (transaction d) (i_sparePartId item) = None
          \<longrightarrow> isl (fst (createOrder env req d))) \<and>
   (\<forall>item p. item \<in> set (r_items req) \<and>
           SparePart_findByPk (transaction d) (i_sparePartId item) = Some p \<and>
           stock p < i_quantity item
          \<longrightarrow> isl (fst (createOrder env req d))) \<and>
   (isl (fst (createOrder env req d)) \<longrightarrow> snd (createOrder env req d) = d)"
proof (intro conjI allI impI)
  show "isl (fst (createOrder env req d))" if "r_userId req \<notin> users d"
    using that by (rule createOrder_user_missing)
next
  fix c
  assume "r_carId req = Some c \<and> c \<noteq> 0 \<and> cars d c = None"
  then show "isl (fst (createOrder env req d))"
    using createOrder_car_unavailable[of req c d env] by simp
next
  fix c car
  assume "r_carId req = Some c \<and> c \<noteq> 0 \<and> cars d c = Some car \<and> carStatus car \<noteq> AVAILABLE"
  then show "isl (fst (createOrder env req d))"
    using createOrder_car_unavailable[of req c d env] by simp
next
  fix item
  assume a: "item \<in> set (r_items req) \<and>
           SparePart_findByPk (transaction d) (i_sparePartId item) = None"
  then have "unfillable (spare_parts d) item"
    by (auto simp: unfillable_def SparePart_findByPk_def transaction_def split: option.splits)
  with a show "isl (fst (createOrder env req d))"
    using createOrder_unfillable by blast
next
  fix item p
  assume a: "item \<in> set (r_items req) \<and>
           SparePart_findByPk (transaction d) (i_sparePartId item) = Some p \<and>
           stock p < i_quantity item"
  then have "unfillable (spare_parts d) item"
    by (auto simp: unfillable_def SparePart_findByPk_def transaction_def split: option.splits)
  with a show "isl (fst (createOrder env req d))"
    using createOrder_unfillable by blast
next
  assume "isl (fst (createOrder env req d))"
  then show "snd (createOrder env req d) = d"
    by (rule createOrder_failure_unchanged)
qed

theorem createOrder_fails_atomically_witness:
  "(isl (fst (createOrder env1 (order_of 9 None []) shop)) \<and>
    snd (createOrder env1 (order_of 9 None []) shop) = shop) \<and>
   (isl (fst (createOrder env1 (order_of 1 (Some 7) []) shop)) \<and>
    snd (createOrder env1 (order_of 1 (Some 7) []) shop) = shop) \<and>
   (isl (fst (createOrder env1 (order_of 1 (Some 2) []) shop)) \<and>
    snd (createOrder env1 (order_of 1 (Some 2) []) shop) = shop) \<and>
   (isl (fst (createOrder env1 (order_of 1 None [(1, 2), (9, 1)]) shop)) \<and>
    snd (createOrder env1 (order_of 1 None [(1, 2), (9, 1)]) shop) = shop) \<and>
   (isl (fst (createOrder env1 (order_of 1 None [(1, 2), (2, 3)]) shop)) \<and>
    snd (createOrder env1 (order_of 1 None [(1, 2), (2, 3)]) shop) = shop)"
proof -
  have u: "r_userId (order_of 9 None []) \<notin> users shop"
    by (simp add: order_of_def shop_def)
  have c1: "r_carId (order_of 1 (Some 7) []) = Some 7 \<and> (7::int) \<noteq> 0 \<and> cars shop 7 = None"
    by (simp add: order_of_def shop_def)
  have c2: "r_carId (order_of 1 (Some 2) []) = Some 2 \<and> (2::int) \<noteq> 0 \<and>
            cars shop 2 = Some \<lparr>carStatus = MAINTENANCE\<rparr> \<and>
            carStatus \<lparr>carStatus = MAINTENANCE\<rparr> \<noteq> AVAILABLE"
    by (simp add: order_of_def shop_def)
  have p1: "\<lparr>i_sparePartId = Some 9, i_quantity = 1, i_unitPrice = 10, i_discount = None\<rparr>
              \<in> set (r_items (order_of 1 None [(1, 2), (9, 1)])) \<and>
            SparePart_findByPk (transaction shop)
              (i_sparePartId \<lparr>i_sparePartId = Some 9, i_quantity = 1, i_unitPrice = 10,
                              i_discount = None\<rparr>) = None"
    by (simp add: order_of_def shop_def SparePart_findByPk_def transaction_def)
  have p2: "\<lparr>i_sparePartId = Some 2, i_quantity = 3, i_unitPrice = 10, i_discount = None\<rparr>
              \<in> set (r_items (order_of 1 None [(1, 2), (2, 3)])) \<and>
            SparePart_findByPk (transaction shop)
              (i_sparePartId \<lparr>i_sparePartId = Some 2, i_quantity = 3, i_unitPrice = 10,
                              i_discount = None\<rparr>) = Some \<lparr>stock = 1, minStockLevel = 0\<rparr> \<and>
            stock \<lparr>stock = 1, minStockLevel = 0\<rparr>
              < i_quantity \<lparr>i_sparePartId = Some 2, i_quantity = 3, i_unitPrice = 10,
                             i_discount = None\<rparr>"
    by (simp add: order_of_def shop_def SparePart_findByPk_def transaction_def)
  have r1: "isl (fst (createOrder env1 (order_of 9 None []) shop)) \<and>
    snd (createOrder env1 (order_of 9 None []) shop) = shop"
    using u createOrder_fails_atomically[of "order_of 9 None []" shop env1] by blast
  have r2: "isl (fst (createOrder env1 (order_of 1 (Some 7) []) shop)) \<and>
    snd (createOrder env1 (order_of 1 (Some 7) []) shop) = shop"
    using c1 createOrder_fails_atomically[of "order_of 1 (Some 7) []" shop env1] by blast
  have r3: "isl (fst (createOrder env1 (order_of 1 (Some 2) []) shop)) \<and>
    snd (createOrder env1 (order_of 1 (Some 2) []) shop) = shop"
    using c2 createOrder_fails_atomically[of "order_of 1 (Some 2) []" shop env1] by blast
  have r4: "isl (fst (createOrder env1 (order_of 1 None [(1, 2), (9, 1)]) shop)) \<and>
    snd (createOrder env1 (order_of 1 None [(1, 2), (9, 1)]) shop) = shop"
    using p1 createOrder_fails_atomically[of "order_of 1 None [(1, 2), (9, 1)]" shop env1]
    by blast
  have r5: "isl (fst (createOrder env1 (order_of 1 None [(1, 2), (2, 3)]) shop)) \<and>
    snd (createOrder env1 (order_of 1 None [(1, 2), (2, 3)]) shop) = shop"
    using p2 createOrder_fails_atomically[of "order_of 1 None [(1, 2), (2, 3)]" shop env1]
    by blast
  show ?thesis using r1 r2 r3 r4 r5 by blast
qed

section \<open>What the queries and the restock loops change\<close>

lemma restock_total_Nil [simp]: "restock_total pid [] = 0"
  by (simp add: restock_total_def)

lemma restock_total_Cons [simp]:
  "restock_total pid (it # items) =
     (if sparePartId it = Some pid then quantity it else 0) + restock_total pid items"
  by (simp add: restock_total_def)

lemma Car_update_status_working [simp]:
  "spare_parts (working (Car_update_status c s t)) = spare_parts (working t)"
  "orders (working (Car_update_status c s t)) = orders (working t)"
  "order_items (working (Car_update_status c s t)) = order_items (working t)"
  by (simp_all add: Car_update_status_def split: option.splits)

lemma Car_update_status_cars:
  "cars (working (Car_update_status c s t)) k =
     (if k = c then map_option (\<lambda>car. car\<lparr>carStatus := s\<rparr>) (cars (working t) c)
      else cars (working t) k)"
  by (simp add: Car_update_status_def split: option.splits)

lemma SparePart_increment_working [simp]:
  "cars (working (SparePart_increment i n t)) = cars (working t)"
  "orders (working (SparePart_increment i n t)) = orders (working t)"
  "order_items (working (SparePart_increment i n t)) = order_items (working t)"
  "snapshot (SparePart_increment i n t) = snapshot t"
  by (simp_all add: SparePart_increment_def split: option.splits)

lemma SparePart_increment_parts:
  "spare_parts (working (SparePart_increment i n t)) k =
     (if k = i then map_option (\<lambda>p. p\<lparr>stock := stock p + n\<rparr>) (spare_parts (working t) i)
      else spare_parts (working t) k)"
  by (simp add: SparePart_increment_def split: option.splits)

lemma Order_update_working [simp]:
  "cars (working (Order_update oid ord t)) = cars (working t)"
  "spare_parts (working (Order_update oid ord t)) = spare_parts (working t)"
  "order_items (working (Order_update oid ord t)) = order_items (working t)"
  "orders (working (Order_update oid ord t)) = (orders (working t))(oid \<mapsto> ord)"
  "snapshot (Order_update oid ord t) = snapshot t"
  by (simp_all add: Order_update_def)

lemma restore_stock_working [simp]:
  "cars (working (restore_stock items t)) = cars (working t)"
  "orders (working (restore_stock items t)) = orders (working t)"
  "order_items (working (restore_stock items t)) = order_items (working t)"
  "snapshot (restore_stock items t) = snapshot t"
  by (induction items arbitrary: t; simp split: option.splits)+

lemma cancel_restore_working [simp]:
  "cars (working (cancel_restore loaded items t)) = cars (working t)"
  "orders (working (cancel_restore loaded items t)) = orders (working t)"
  "order_items (working (cancel_restore loaded items t)) = order_items (working t)"
  "snapshot (cancel_restore loaded items t) = snapshot t"
  by (induction items arbitrary: t; simp split: option.splits)+

lemma restore_stock_parts:
  "spare_parts (working (restore_stock items t)) pid =
     map_option (\<lambda>p. p\<lparr>stock := stock p + (if pid = 0 then 0 else restock_total pid items)\<rparr>)
       (spare_parts (working t) pid)"
proof (induction items arbitrary: t)
  case Nil
  then show ?case by (cases "spare_parts (working t) pid") simp_all
next
  case (Cons it items)
  show ?case
    by (cases "spare_parts (working t) pid")
       (auto simp: Cons.IH SparePart_increment_parts split: option.splits)
qed

lemma cancel_restore_parts:
  "spare_parts (working (cancel_restore loaded items t)) pid =
     map_option (\<lambda>p. p\<lparr>stock := stock p +
                          (if pid \<noteq> 0 \<and> loaded pid \<noteq> None then restock_total pid items else 0)\<rparr>)
       (spare_parts (working t) pid)"
proof (induction items arbitrary: t)
  case Nil
  then show ?case by (cases "spare_parts (working t) pid") simp_all
next
  case (Cons it items)
  show ?case
    by (cases "spare_parts (working t) pid")
       (auto simp: Cons.IH SparePart_increment_parts split: option.splits)
qed

section \<open>Properties of cancelOrder\<close>

lemma append_note_appends:
  "\<exists>sep. append_note old entry = text_of old @ sep @ entry"
proof (cases "truthy_str old")
  case True
  then show ?thesis by (auto simp: append_note_def)
next
  case False
  then have "text_of old = []"
    by (auto simp: truthy_str_def text_of_def split: option.splits)
  then have "append_note old entry = text_of old @ [] @ entry"
    using False by (simp add: append_note_def)
  then show ?thesis by blast
qed

lemma cancelOrder_terminal:
  assumes "orders d oid = Some ord" "status ord = DELIVERED \<or> status ord = CANCELLED"
  shows "cancelOrder stamp oid reason d = (Inl (CannotCancel (status ord)), d)"
  using assms by (auto simp: cancelOrder_def Let_def transaction_def rollback_def)

lemma cancelOrder_open:
  fixes stamp :: string and reason :: "string option"
  assumes "orders d oid = Some ord" "status ord \<noteq> DELIVERED" "status ord \<noteq> CANCELLED"
  defines "ord' \<equiv> ord\<lparr>status := CANCELLED,
                        orderNotes := Some (append_note (orderNotes ord)
                                              (cancellation_note stamp reason))\<rparr>"
  defines "d' \<equiv> snd (cancelOrder stamp oid reason d)"
  shows "fst (cancelOrder stamp oid reason d) = Inr ord'"
    and "orders d' oid = Some ord'"
    and "carId ord = Some c \<Longrightarrow> c \<noteq> 0 \<Longrightarrow> cars d c = Some car \<Longrightarrow>
         cars d' c = Some (car\<lparr>carStatus := AVAILABLE\<rparr>)"
    and "pid \<noteq> 0 \<Longrightarrow> spare_parts d pid = Some p \<Longrightarrow>
         spare_parts d' pid =
           Some (p\<lparr>stock := stock p + restock_total pid
                                          (filter (\<lambda>it. orderId it = oid) (order_items d))\<rparr>)"
proof -
  show "fst (cancelOrder stamp oid reason d) = Inr ord'"
    using assms(1-3) by (simp add: cancelOrder_def Let_def transaction_def ord'_def)
  show "orders d' oid = Some ord'"
    using assms(1-3)
    by (simp add: d'_def cancelOrder_def Let_def transaction_def ord'_def commit_def
        split: option.splits)
  show "cars d' c = Some (car\<lparr>carStatus := AVAILABLE\<rparr>)"
    if "carId ord = Some c" "c \<noteq> 0" "cars d c = Some car"
    using assms(1-3) that
    by (simp add: d'_def cancelOrder_def Let_def transaction_def commit_def
        Car_findByPk_def Car_update_status_cars)
  show "spare_parts d' pid =
           Some (p\<lparr>stock := stock p + restock_total pid
                                          (filter (\<lambda>it. orderId it = oid) (order_items d))\<rparr>)"
    if "pid \<noteq> 0" "spare_parts d pid = Some p"
    using assms(1-3) that
    by (simp add: d'_def cancelOrder_def Let_def transaction_def commit_def
        cancel_restore_parts OrderItem_findAll_def split: option.splits)
qed

text \<open>
  Claim C5. For every call of cancelOrder on an order that exists: when the status of the
  order is DELIVERED or CANCELLED the call fails and the database is unchanged; in every
  other case it succeeds, the order is stored with status CANCELLED and with the
  cancellation note (\<open>CANCELLED on\<close>, the time stamp, the reason or
  \<open>No reason provided\<close>) appended to its notes, the car of the order, if it has one, is
  AVAILABLE, and the stock of every spare part has grown by the quantities of the items
  of the order for that part.
\<close>

theorem cancelOrder_cancels_unless_terminal:
  assumes "orders d oid = Some ord"
  shows
    "(status ord = DELIVERED \<or> status ord = CANCELLED \<longrightarrow>
        cancelOrder stamp oid reason d = (Inl (CannotCancel (status ord)), d)) \<and>
     (status ord \<noteq> DELIVERED \<and> status ord \<noteq> CANCELLED \<longrightarrow>
        (\<exists>ord'. fst (cancelOrder stamp oid reason d) = Inr ord' \<and>
           orders (snd (cancelOrder stamp oid reason d)) oid = Some ord' \<and>
           status ord' = CANCELLED \<and>
           (\<exists>sep. text_of (orderNotes ord') =
                    text_of (orderNotes ord) @ sep @ ''CANCELLED on '' @ stamp @ '': '' @
                      (if truthy_str reason then text_of reason else ''No reason provided'')) \<and>
           (\<forall>c car. carId ord = Some c \<and> c \<noteq> 0 \<and> cars d c = Some car \<longrightarrow>
                cars (snd (cancelOrder stamp oid reason d)) c
                  = Some (car\<lparr>carStatus := AVAILABLE\<rparr>)) \<and>
           (\<forall>pid p. pid \<noteq> 0 \<and> spare_parts d pid = Some p \<longrightarrow>
                spare_parts (snd (cancelOrder stamp oid reason d)) pid
                  = Some (p\<lparr>stock := stock p + restock_total pid
                             (filter (\<lambda>it. orderId it = oid) (order_items d))\<rparr>))))"
proof (intro conjI impI)
  assume "status ord = DELIVERED \<or> status ord = CANCELLED"
  then show "cancelOrder stamp oid reason d = (Inl (CannotCancel (status ord)), d)"
    using assms by (rule cancelOrder_terminal[rotated])
next
  assume a: "status ord \<noteq> DELIVERED \<and> status ord \<noteq> CANCELLED"
  let ?ord' = "ord\<lparr>status := CANCELLED,
                        orderNotes := Some (append_note (orderNotes ord)
                                              (cancellation_note stamp reason))\<rparr>"
  have appended: "\<exists>sep. text_of (orderNotes ?ord') =
                    text_of (orderNotes ord) @ sep @ ''CANCELLED on '' @ stamp @ '': '' @
                      (if truthy_str reason then text_of reason else ''No reason provided'')"
    using append_note_appends[of "orderNotes ord" "cancellation_note stamp reason"]
    by (simp add: text_of_def cancellation_note_def)
  show "\<exists>ord'. fst (cancelOrder stamp oid reason d) = Inr ord' \<and>
           orders (snd (cancelOrder stamp oid reason d)) oid = Some ord' \<and>
           status ord' = CANCELLED \<and>
           (\<exists>sep. text_of (orderNotes ord') =
                    text_of (orderNotes ord) @ sep @ ''CANCELLED on '' @ stamp @ '': '' @
                      (if truthy_str reason then text_of reason else ''No reason provided'')) \<and>
           (\<forall>c car. carId ord = Some c \<and> c \<noteq> 0 \<and> cars d c = Some car \<longrightarrow>
                cars (snd (cancelOrder stamp oid reason d)) c
                  = Some (car\<lparr>carStatus := AVAILABLE\<rparr>)) \<and>
           (\<forall>pid p. pid \<noteq> 0 \<and> spare_parts d pid = Some p \<longrightarrow>
                spare_parts (snd (cancelOrder stamp oid reason d)) pid
                  = Some (p\<lparr>stock := stock p + restock_total pid
                             (filter (\<lambda>it. orderId it = oid) (order_items d))\<rparr>))"
  proof (intro exI[of _ ?ord'] conjI allI impI)
    show "fst (cancelOrder stamp oid reason d) = Inr ?ord'"
      using cancelOrder_open(1)[OF assms] a by simp
    show "orders (snd (cancelOrder stamp oid reason d)) oid = Some ?ord'"
      using cancelOrder_open(2)[OF assms] a by simp
    show "status ?ord' = CANCELLED" by simp
    show "\<exists>sep. text_of (orderNotes ?ord') =
                    text_of (orderNotes ord) @ sep @ ''CANCELLED on '' @ stamp @ '': '' @
                      (if truthy_str reason then text_of reason else ''No reason provided'')"
      by (rule appended)
  next
    fix c car
    assume "carId ord = Some c \<and> c \<noteq> 0 \<and> cars d c = Some car"
    then show "cars (snd (cancelOrder stamp oid reason d)) c
                  = Some (car\<lparr>carStatus := AVAILABLE\<rparr>)"
      using cancelOrder_open(3)[OF assms] a by simp
  next
    fix pid p
    assume "pid \<noteq> 0 \<and> spare_parts d pid = Some p"
    then show "spare_parts (snd (cancelOrder stamp oid reason d)) pid
                  = Some (p\<lparr>stock := stock p + restock_total pid
                             (filter (\<lambda>it. orderId it = oid) (order_items d))\<rparr>)"
      using cancelOrder_open(4)[OF assms] a by simp
  qed
qed



text \<open>The example database \<open>booked\<close> is the shop after one order for car 1 and two units of part 1.\<close>

lemma createOrder_shop_booked:
  "createOrder env1 (order_of 1 (Some 1) [(1, 2)]) shop = (Inr 1, booked)"
  by (simp add: createOrder_def createOrder_body_def order_of_def shop_def env1_def booked_def
      order1_def valid_order_request_def transaction_def check_car_def Car_findByPk_def
      Order_create_def default_to_def SparePart_findByPk_def OrderItem_create_def
      beforeValidate_def SparePart_update_stock_def Car_update_status_def commit_def
      txn_write_def fun_upd_twist)

theorem cancelOrder_cancels_unless_terminal_witness:
  "(\<exists>ord'. fst (cancelOrder ''2024-05-01T10:00:00.000Z'' 1 None booked) = Inr ord' \<and>
           status ord' = CANCELLED \<and>
           cancelOrder ''2024-05-02T10:00:00.000Z'' 1 None
               (snd (cancelOrder ''2024-05-01T10:00:00.000Z'' 1 None booked))
             = (Inl (CannotCancel CANCELLED),
                snd (cancelOrder ''2024-05-01T10:00:00.000Z'' 1 None booked))) \<and>
   cars (snd (cancelOrder ''2024-05-01T10:00:00.000Z'' 1 None booked)) 1
     = Some \<lparr>carStatus = AVAILABLE\<rparr> \<and>
   spare_parts (snd (cancelOrder ''2024-05-01T10:00:00.000Z'' 1 None booked)) 1
     = Some \<lparr>stock = 5, minStockLevel = 5\<rparr>"
proof -
  let ?d' = "snd (cancelOrder ''2024-05-01T10:00:00.000Z'' 1 None booked)"
  have o: "orders booked 1 = Some order1" by (simp add: booked_def)
  have st: "status order1 \<noteq> DELIVERED \<and> status order1 \<noteq> CANCELLED"
    by (simp add: order1_def)
  have car: "carId order1 = Some 1 \<and> (1::int) \<noteq> 0 \<and>
             cars booked 1 = Some \<lparr>carStatus = RESERVED\<rparr>"
    by (simp add: order1_def booked_def)
  have part: "(1::int) \<noteq> 0 \<and> spare_parts booked 1 = Some \<lparr>stock = 3, minStockLevel = 5\<rparr>"
    by (simp add: booked_def)
  have total: "restock_total 1 (filter (\<lambda>it. orderId it = 1) (order_items booked)) = 2"
    by (simp add: booked_def)
  from cancelOrder_cancels_unless_terminal[OF o, of "''2024-05-01T10:00:00.000Z''" None] st
  obtain ord' where r: "fst (cancelOrder ''2024-05-01T10:00:00.000Z'' 1 None booked) = Inr ord'"
    and o': "orders ?d' 1 = Some ord'" and c: "status ord' = CANCELLED"
    and cars': "\<forall>c car. carId order1 = Some c \<and> c \<noteq> 0 \<and> cars booked c = Some car \<longrightarrow>
                cars ?d' c = Some (car\<lparr>carStatus := AVAILABLE\<rparr>)"
    and parts': "\<forall>pid p. pid \<noteq> 0 \<and> spare_parts booked pid = Some p \<longrightarrow>
                spare_parts ?d' pid
                  = Some (p\<lparr>stock := stock p + restock_total pid
                             (filter (\<lambda>it. orderId it = 1) (order_items booked))\<rparr>)"
    by blast
  have again: "cancelOrder ''2024-05-02T10:00:00.000Z'' 1 None ?d'
                 = (Inl (CannotCancel CANCELLED), ?d')"
    using cancelOrder_cancels_unless_terminal[OF o', of "''2024-05-02T10:00:00.000Z''" None] c
    by simp
  have "cars ?d' 1 = Some \<lparr>carStatus = AVAILABLE\<rparr>"
    using cars' car by fastforce
  moreover have "spare_parts ?d' 1 = Some \<lparr>stock = 5, minStockLevel = 5\<rparr>"
    using parts' part total by fastforce
  ultimately show ?thesis using r c again by blast
qed

section \<open>Properties of updateOrderStatus\<close>

lemma status_side_effects_working [simp]:
  "orders (working (status_side_effects oid ord st t)) = orders (working t)"
  "order_items (working (status_side_effects oid ord st t)) = order_items (working t)"
  "snapshot (status_side_effects oid ord st t) = snapshot t"
  by (simp_all add: status_side_effects_def Let_def split: option.splits)

lemma status_side_effects_parts:
  "\<not> (st = CANCELLED \<and> (status ord = PENDING \<or> status ord = PROCESSING)) \<Longrightarrow>
   spare_parts (working (status_side_effects oid ord st t)) = spare_parts (working t)"
  by (auto simp: status_side_effects_def Let_def split: option.splits)

lemma updateOrderStatus_missing:
  "orders d oid = None \<Longrightarrow> updateOrderStatus stamp oid req d = (Inl OrderNotFound, d)"
  by (simp add: updateOrderStatus_def transaction_def rollback_def)

lemma updateData_unchanged:
  "\<not> has_updateData req ord \<Longrightarrow> updateData stamp req ord = ord"
  by (auto simp: has_updateData_def updateData_def Let_def split: option.splits)

lemma updateOrderStatus_result:
  "orders d oid = Some ord \<Longrightarrow>
   fst (updateOrderStatus stamp oid req d) = Inr (updateData stamp req ord)"
  by (simp add: updateOrderStatus_def transaction_def Let_def)

lemma updateOrderStatus_orders:
  assumes "orders d oid = Some ord"
  shows "orders (snd (updateOrderStatus stamp oid req d))
           = (orders d)(oid \<mapsto> updateData stamp req ord)"
proof (cases "has_updateData req ord")
  case True
  then show ?thesis
    using assms
    by (simp add: updateOrderStatus_def transaction_def Let_def commit_def split: option.splits)
next
  case False
  then have "orders (snd (updateOrderStatus stamp oid req d)) = orders d"
    using assms
    by (simp add: updateOrderStatus_def transaction_def Let_def commit_def split: option.splits)
  moreover have "(orders d)(oid \<mapsto> updateData stamp req ord) = orders d"
    using assms updateData_unchanged[OF False] by (simp add: map_upd_triv)
  ultimately show ?thesis by simp
qed

lemma updateOrderStatus_items:
  "order_items (snd (updateOrderStatus stamp oid req d)) = order_items d"
  by (simp add: updateOrderStatus_def transaction_def Let_def commit_def rollback_def
      split: option.splits)

lemma updateOrderStatus_parts:
  assumes "orders d oid = Some ord"
    "\<not> (u_status req = Some CANCELLED \<and> (status ord = PENDING \<or> status ord = PROCESSING))"
  shows "spare_parts (snd (updateOrderStatus stamp oid req d)) = spare_parts d"
  using assms
  by (auto simp: updateOrderStatus_def transaction_def Let_def commit_def
      status_side_effects_parts split: option.splits)

lemma updateOrderStatus_no_side_effects:
  assumes "orders d oid = Some ord" "u_status req = None \<or> u_status req = Some (status ord)"
  shows "spare_parts (snd (updateOrderStatus stamp oid req d)) = spare_parts d"
    and "cars (snd (updateOrderStatus stamp oid req d)) = cars d"
  using assms
  by (auto simp: updateOrderStatus_def transaction_def Let_def commit_def split: option.splits)

lemma updateData_fields [simp]:
  "userId (updateData stamp req ord) = userId ord"
  "orderNumber (updateData stamp req ord) = orderNumber ord"
  "carId (updateData stamp req ord) = carId ord"
  "totalAmount (updateData stamp req ord) = totalAmount ord"
  "discountAmount (updateData stamp req ord) = discountAmount ord"
  "taxAmount (updateData stamp req ord) = taxAmount ord"
  "shippingCost (updateData stamp req ord) = shippingCost ord"
  by (simp_all add: updateData_def Let_def split: option.splits)

lemma updateData_status:
  "status (updateData stamp req ord) = (case u_status req of None \<Rightarrow> status ord | Some st \<Rightarrow> st)"
  by (auto simp: updateData_def Let_def split: option.splits)

lemma updateData_only_four:
  "updateData stamp req ord =
     ord\<lparr>status := status (updateData stamp req ord),
         paymentStatus := paymentStatus (updateData stamp req ord),
         trackingNumber := trackingNumber (updateData stamp req ord),
         orderNotes := orderNotes (updateData stamp req ord)\<rparr>"
  by (auto simp: updateData_def Let_def split: option.splits)

lemma updateData_notes:
  "orderNotes (updateData stamp req ord) = orderNotes ord \<or>
   (\<exists>sep. text_of (orderNotes (updateData stamp req ord))
            = text_of (orderNotes ord) @ sep @ stamp @ '': '' @ text_of (u_notes req))"
proof (cases "truthy_str (u_notes req)")
  case True
  then have "orderNotes (updateData stamp req ord)
               = Some (append_note (orderNotes ord) (stamp @ '': '' @ text_of (u_notes req)))"
    by (simp add: updateData_def Let_def split: option.splits)
  then show ?thesis
    using append_note_appends[of "orderNotes ord" "stamp @ '': '' @ text_of (u_notes req)"]
    by (auto simp: text_of_def)
next
  case False
  then show ?thesis by (simp add: updateData_def Let_def split: option.splits)
qed

text \<open>
  Claim C10. Frame of updateOrderStatus. A call for an order that does not exist changes
  nothing. A call for an order that exists succeeds and stores an order that differs from
  the one before in \<open>status\<close>, \<open>paymentStatus\<close>, \<open>trackingNumber\<close> and \<open>notes\<close> at most:
  \<open>orderNumber\<close>, \<open>userId\<close>, \<open>carId\<close>, \<open>totalAmount\<close>, \<open>discountAmount\<close>, \<open>taxAmount\<close>
  and \<open>shippingCost\<close> are the same; the notes are either the same or the old notes
  followed by an entry made of the time stamp and the text of the request; the order
  items are the same; and the spare part table changes only when the requested status is
  CANCELLED and the order was PENDING or PROCESSING.
\<close>

theorem updateOrderStatus_frame:
  "(orders d oid = None \<longrightarrow> updateOrderStatus stamp oid req d = (Inl OrderNotFound, d)) \<and>
   (\<forall>ord. orders d oid = Some ord \<longrightarrow>
      (\<exists>ord'. fst (updateOrderStatus stamp oid req d) = Inr ord' \<and>
         orders (snd (updateOrderStatus stamp oid req d)) oid = Some ord' \<and>
         ord' = ord\<lparr>status := status ord', paymentStatus := paymentStatus ord',
                    trackingNumber := trackingNumber ord', orderNotes := orderNotes ord'\<rparr> \<and>
         orderNumber ord' = orderNumber ord \<and> userId ord' = userId ord \<and>
         carId ord' = carId ord \<and> totalAmount ord' = totalAmount ord \<and>
         discountAmount ord' = discountAmount ord \<and> taxAmount ord' = taxAmount ord \<and>
         shippingCost ord' = shippingCost ord \<and>
         (orderNotes ord' = orderNotes ord \<or>
          (\<exists>sep. text_of (orderNotes ord')
                   = text_of (orderNotes ord) @ sep @ stamp @ '': '' @ text_of (u_notes req))) \<and>
         order_items (snd (updateOrderStatus stamp oid req d)) = order_items d \<and>
         (spare_parts (snd (updateOrderStatus stamp oid req d)) \<noteq> spare_parts d \<longrightarrow>
            u_status req = Some CANCELLED \<and> (status ord = PENDING \<or> status ord = PROCESSING))))"
proof (intro conjI allI impI)
  assume "orders d oid = None"
  then show "updateOrderStatus stamp oid req d = (Inl OrderNotFound, d)"
    by (rule updateOrderStatus_missing)
next
  fix ord
  assume o: "orders d oid = Some ord"
  let ?ord' = "updateData stamp req ord"
  have parts: "spare_parts (snd (updateOrderStatus stamp oid req d)) \<noteq> spare_parts d \<longrightarrow>
            u_status req = Some CANCELLED \<and> (status ord = PENDING \<or> status ord = PROCESSING)"
    using updateOrderStatus_parts[OF o] by blast
  have stored: "orders (snd (updateOrderStatus stamp oid req d)) oid = Some ?ord'"
    by (simp add: updateOrderStatus_orders[OF o])
  show "\<exists>ord'. fst (updateOrderStatus stamp oid req d) = Inr ord' \<and>
         orders (snd (updateOrderStatus stamp oid req d)) oid = Some ord' \<and>
         ord' = ord\<lparr>status := status ord', paymentStatus := paymentStatus ord',
                    trackingNumber := trackingNumber ord', orderNotes := orderNotes ord'\<rparr> \<and>
         orderNumber ord' = orderNumber ord \<and> userId ord' = userId ord \<and>
         carId ord' = carId ord \<and> totalAmount ord' = totalAmount ord \<and>
         discountAmount ord' = discountAmount ord \<and> taxAmount ord' = taxAmount ord \<and>
         shippingCost ord' = shippingCost ord \<and>
         (orderNotes ord' = orderNotes ord \<or>
          (\<exists>sep. text_of (orderNotes ord')
                   = text_of (orderNotes ord) @ sep @ stamp @ '': '' @ text_of (u_notes req))) \<and>
         order_items (snd (updateOrderStatus stamp oid req d)) = order_items d \<and>
         (spare_parts (snd (updateOrderStatus stamp oid req d)) \<noteq> spare_parts d \<longrightarrow>
            u_status req = Some CANCELLED \<and> (status ord = PENDING \<or> status ord = PROCESSING))"
    using updateOrderStatus_result[OF o, of stamp req] stored
      updateData_only_four[of stamp req ord] updateData_notes[of stamp req ord]
      updateOrderStatus_items[of stamp oid req d] parts
    by (intro exI[of _ ?ord']) simp
qed

text \<open>
  Claim C6. A call of updateOrderStatus whose requested status is the status the order
  already has changes no stock and no car status, and leaves the status of the order as
  it is; hence a second call with the same request, right after a first one, changes no
  stock and no car status, whatever the first call did.
\<close>

theorem updateOrderStatus_same_status_idempotent:
  "(\<forall>ord. orders d oid = Some ord \<and> u_status req = Some (status ord) \<longrightarrow>
      spare_parts (snd (updateOrderStatus stamp oid req d)) = spare_parts d \<and>
      cars (snd (updateOrderStatus stamp oid req d)) = cars d \<and>
      map_option status (orders (snd (updateOrderStatus stamp oid req d)) oid)
        = Some (status ord)) \<and>
   spare_parts (snd (updateOrderStatus stamp' oid req (snd (updateOrderStatus stamp oid req d))))
     = spare_parts (snd (updateOrderStatus stamp oid req d)) \<and>
   cars (snd (updateOrderStatus stamp' oid req (snd (updateOrderStatus stamp oid req d))))
     = cars (snd (updateOrderStatus stamp oid req d))"
proof -
  let ?d1 = "snd (updateOrderStatus stamp oid req d)"
  have first: "spare_parts ?d1 = spare_parts d \<and> cars ?d1 = cars d \<and>
      map_option status (orders ?d1 oid) = Some (status ord)"
    if "orders d oid = Some ord \<and> u_status req = Some (status ord)" for ord
    using that updateOrderStatus_no_side_effects[of d oid ord req stamp]
      updateOrderStatus_orders[of d oid ord stamp req]
    by (simp add: updateData_status)
  have second: "spare_parts (snd (updateOrderStatus stamp' oid req ?d1)) = spare_parts ?d1 \<and>
     cars (snd (updateOrderStatus stamp' oid req ?d1)) = cars ?d1"
  proof (cases "orders d oid")
    case None
    then have "?d1 = d" by (simp add: updateOrderStatus_missing)
    then show ?thesis using None by (simp add: updateOrderStatus_missing)
  next
    case (Some ord)
    have o1: "orders ?d1 oid = Some (updateData stamp req ord)"
      by (simp add: updateOrderStatus_orders[OF Some])
    have "u_status req = None \<or> u_status req = Some (status (updateData stamp req ord))"
      by (cases "u_status req") (simp_all add: updateData_status)
    then show ?thesis
      using updateOrderStatus_no_side_effects[OF o1] by blast
  qed
  show ?thesis using first second by blast
qed


lemma cancel_booked_part1:
  "spare_parts (snd (updateOrderStatus ''2024-05-01T10:00:00.000Z'' 1 (status_req CANCELLED) booked)) 1
     = Some \<lparr>stock = 5, minStockLevel = 5\<rparr>"
  by (simp add: updateOrderStatus_def transaction_def Let_def commit_def booked_def order1_def
      status_req_def status_side_effects_def new_carStatus_def OrderItem_findAll_def
      SparePart_increment_parts has_updateData_def)

theorem updateOrderStatus_frame_witness:
  "updateOrderStatus ''2024-05-01T10:00:00.000Z'' 7 (status_req CANCELLED) booked
     = (Inl OrderNotFound, booked) \<and>
   (\<exists>ord'. fst (updateOrderStatus ''2024-05-01T10:00:00.000Z'' 1 (status_req CANCELLED) booked)
             = Inr ord' \<and>
           orderNumber ord' = ''ORD-00000001-001'' \<and> userId ord' = 1 \<and> carId ord' = Some 1 \<and>
           totalAmount ord' = 0) \<and>
   order_items (snd (updateOrderStatus ''2024-05-01T10:00:00.000Z'' 1 (status_req CANCELLED) booked))
     = order_items booked \<and>
   u_status (status_req CANCELLED) = Some CANCELLED \<and>
   (status order1 = PENDING \<or> status order1 = PROCESSING)"
proof -
  let ?r = "updateOrderStatus ''2024-05-01T10:00:00.000Z'' 1 (status_req CANCELLED) booked"
  have none: "orders booked 7 = None" by (simp add: booked_def)
  have some: "orders booked 1 = Some order1" by (simp add: booked_def)
  have "spare_parts (snd ?r) 1 \<noteq> spare_parts booked 1"
    by (simp add: cancel_booked_part1) (simp add: booked_def)
  then have changed: "spare_parts (snd ?r) \<noteq> spare_parts booked" by auto
  have f1: "updateOrderStatus ''2024-05-01T10:00:00.000Z'' 7 (status_req CANCELLED) booked
     = (Inl OrderNotFound, booked)"
    using updateOrderStatus_frame[of booked 7 "''2024-05-01T10:00:00.000Z''" "status_req CANCELLED"]
      none by blast
  from updateOrderStatus_frame[of booked 1 "''2024-05-01T10:00:00.000Z''" "status_req CANCELLED"]
    some changed
  obtain ord' where "fst ?r = Inr ord'" "orderNumber ord' = orderNumber order1"
    "userId ord' = userId order1" "carId ord' = carId order1"
    "totalAmount ord' = totalAmount order1" "order_items (snd ?r) = order_items booked"
    "u_status (status_req CANCELLED) = Some CANCELLED \<and>
      (status order1 = PENDING \<or> status order1 = PROCESSING)"
    by blast
  then show ?thesis using f1 by (auto simp: order1_def)
qed

theorem updateOrderStatus_same_status_idempotent_witness:
  "spare_parts (snd (updateOrderStatus ''2024-05-01T10:00:00.000Z'' 1 (status_req PENDING) booked))
     = spare_parts booked \<and>
   cars (snd (updateOrderStatus ''2024-05-01T10:00:00.000Z'' 1 (status_req PENDING) booked))
     = cars booked \<and>
   spare_parts (snd (updateOrderStatus ''2024-05-02T10:00:00.000Z'' 1 (status_req CANCELLED)
                  (snd (updateOrderStatus ''2024-05-01T10:00:00.000Z'' 1 (status_req CANCELLED) booked))))
     = spare_parts (snd (updateOrderStatus ''2024-05-01T10:00:00.000Z'' 1 (status_req CANCELLED) booked))"
proof -
  have "orders booked 1 = Some order1 \<and> u_status (status_req PENDING) = Some (status order1)"
    by (simp add: booked_def order1_def status_req_def)
  then show ?thesis
    using updateOrderStatus_same_status_idempotent
            [of booked 1 "status_req PENDING" "''2024-05-01T10:00:00.000Z''"]
          updateOrderStatus_same_status_idempotent
            [of booked 1 "status_req CANCELLED" "''2024-05-01T10:00:00.000Z''"
                "''2024-05-02T10:00:00.000Z''"]
    by blast
qed

section \<open>Stock never goes negative\<close>

lemma restock_total_nonneg:
  "list_all (\<lambda>it. 0 \<le> quantity it) items \<Longrightarrow> 0 \<le> restock_total pid items"
  by (induction items) auto

lemma stock_nonneg_parts_eq:
  "spare_parts d' = spare_parts d \<Longrightarrow> stock_nonneg d \<Longrightarrow> stock_nonneg d'"
  by (simp add: stock_nonneg_def)

lemma items_wellformed_items_eq:
  "order_items d' = order_items d \<Longrightarrow> items_wellformed d \<Longrightarrow> items_wellformed d'"
  by (simp add: items_wellformed_def)

lemma OrderItem_create_items:
  "OrderItem_create it t = Inr t' \<Longrightarrow>
   \<exists>it'. order_items (working t') = order_items (working t) @ [it'] \<and> 1 \<le> quantity it'"
  by (auto simp: OrderItem_create_def Let_def split: if_splits)

lemma SparePart_update_stock_items:
  "SparePart_update_stock i n t = Inr t' \<Longrightarrow> order_items (working t') = order_items (working t)"
  by (auto simp: SparePart_update_stock_def split: if_splits option.splits)

lemma SparePart_update_stock_nonneg:
  "SparePart_update_stock i n t = Inr t' \<Longrightarrow> stock_nonneg (working t) \<Longrightarrow>
   stock_nonneg (working t')"
  by (auto simp: SparePart_update_stock_def stock_nonneg_def split: if_splits option.splits)

lemma process_items_invariant:
  "process_items oid items t = Inr t' \<Longrightarrow>
   stock_nonneg (working t) \<Longrightarrow> items_wellformed (working t) \<Longrightarrow>
   stock_nonneg (working t') \<and> items_wellformed (working t')"
proof (induction items arbitrary: t)
  case Nil
  then show ?case by simp
next
  case (Cons x xs)
  from Cons.prems(1) obtain pid p t1 t2 where
    x: "i_sparePartId x = Some pid" "spare_parts (working t) pid = Some p"
    and t1: "OrderItem_create \<lparr>orderId = oid, sparePartId = Some pid, quantity = i_quantity x,
                          unitPrice = i_unitPrice x,
                          totalPrice = i_unitPrice x * of_int (i_quantity x)
                                        - default_to 0 (i_discount x),
                          discount = default_to 0 (i_discount x)\<rparr> t = Inr t1"
    and t2: "SparePart_update_stock pid (stock p - i_quantity x) t1 = Inr t2"
    and rest: "process_items oid xs t2 = Inr t'"
    by (auto simp: SparePart_findByPk_def split: option.splits if_splits sum.splits)
  have "stock_nonneg (working t1)"
    using OrderItem_create_parts[OF t1] Cons.prems(2) by (rule stock_nonneg_parts_eq)
  then have s2: "stock_nonneg (working t2)"
    using SparePart_update_stock_nonneg[OF t2] by simp
  have "items_wellformed (working t1)"
    using OrderItem_create_items[OF t1] Cons.prems(3) by (auto simp: items_wellformed_def)
  then have i2: "items_wellformed (working t2)"
    using SparePart_update_stock_items[OF t2] by (simp add: items_wellformed_def)
  show ?case using Cons.IH[OF rest s2 i2] .
qed

lemma Order_create_working:
  "Order_create oid ord t = Inr t' \<Longrightarrow>
   spare_parts (working t') = spare_parts (working t) \<and>
   order_items (working t') = order_items (working t)"
  by (auto simp: Order_create_def split: if_splits)

lemma createOrder_body_invariant:
  assumes "createOrder_body env req t = Inr t'"
    "stock_nonneg (working t)" "items_wellformed (working t)"
  shows "stock_nonneg (working t') \<and> items_wellformed (working t')"
proof -
  from assms(1) obtain ord t1 t2 where
    t1: "Order_create (new_order_id env) ord t = Inr t1"
    and t2: "process_items (new_order_id env) (r_items req) t1 = Inr t2"
    and t': "t' = (case r_carId req of
                     None \<Rightarrow> t2
                   | Some c \<Rightarrow> if c = 0 then t2 else Car_update_status c RESERVED t2)"
    by (auto simp: createOrder_body_def split: if_splits option.splits sum.splits)
  have "stock_nonneg (working t1) \<and> items_wellformed (working t1)"
    using Order_create_working[OF t1] assms(2,3)
    by (simp add: stock_nonneg_def items_wellformed_def)
  then have "stock_nonneg (working t2) \<and> items_wellformed (working t2)"
    using process_items_invariant[OF t2] by simp
  then show ?thesis
    unfolding t' by (simp add: stock_nonneg_def items_wellformed_def split: option.splits)
qed

lemma createOrder_invariant:
  assumes "stock_nonneg d" "items_wellformed d"
  shows "stock_nonneg (snd (createOrder env req d)) \<and> items_wellformed (snd (createOrder env req d))"
proof (cases "fst (createOrder env req d)")
  case (Inl e)
  then have "snd (createOrder env req d) = d"
    using createOrder_failure_unchanged[of env req d] by simp
  then show ?thesis using assms by simp
next
  case (Inr oid)
  then obtain t where "createOrder_body env req (transaction d) = Inr t"
    and "snd (createOrder env req d) = commit t"
    by (auto simp: createOrder_def split: if_splits sum.splits)
  then show ?thesis
    using createOrder_body_invariant[of env req "transaction d" t] assms
    by (simp add: transaction_def commit_def)
qed

lemma restore_stock_nonneg:
  assumes "stock_nonneg (working t)" "list_all (\<lambda>it. 0 \<le> quantity it) items"
  shows "stock_nonneg (working (restore_stock items t))"
  using assms restock_total_nonneg[OF assms(2)]
  by (auto simp: stock_nonneg_def restore_stock_parts)

lemma cancel_restore_nonneg:
  assumes "stock_nonneg (working t)" "list_all (\<lambda>it. 0 \<le> quantity it) items"
  shows "stock_nonneg (working (cancel_restore loaded items t))"
  using assms restock_total_nonneg[OF assms(2)]
  by (auto simp: stock_nonneg_def cancel_restore_parts)

lemma findAll_wellformed:
  "items_wellformed (working t) \<Longrightarrow> list_all (\<lambda>it. 0 \<le> quantity it) (OrderItem_findAll oid t)"
  by (auto simp: items_wellformed_def OrderItem_findAll_def list_all_iff)

lemma status_side_effects_nonneg:
  assumes "stock_nonneg (working t)" "items_wellformed (working t)"
  shows "stock_nonneg (working (status_side_effects oid ord st t))"
proof -
  have car: "stock_nonneg (working (Car_update_status c cs t))" for c cs
    using assms(1) by (simp add: stock_nonneg_def)
  have items: "list_all (\<lambda>it. 0 \<le> quantity it) (OrderItem_findAll oid (Car_update_status c cs t))" for c cs
    using assms(2) by (simp add: OrderItem_findAll_def items_wellformed_def list_all_iff)
  show ?thesis
    using assms car items findAll_wellformed[OF assms(2), of oid]
    by (auto simp: status_side_effects_def Let_def intro!: restore_stock_nonneg
        split: option.splits)
qed

lemma updateOrderStatus_invariant:
  assumes "stock_nonneg d" "items_wellformed d"
  shows "stock_nonneg (snd (updateOrderStatus stamp oid req d)) \<and>
         items_wellformed (snd (updateOrderStatus stamp oid req d))"
proof -
  have "items_wellformed (snd (updateOrderStatus stamp oid req d))"
    using assms(2) updateOrderStatus_items[of stamp oid req d]
    by (simp add: items_wellformed_def)
  moreover have "stock_nonneg (snd (updateOrderStatus stamp oid req d))"
  proof (cases "orders d oid")
    case None
    then show ?thesis using assms(1) by (simp add: updateOrderStatus_missing)
  next
    case (Some ord)
    have "stock_nonneg (working (status_side_effects oid ord st (transaction d)))" for st
      using status_side_effects_nonneg[of "transaction d"] assms by (simp add: transaction_def)
    then show ?thesis
      using Some assms(1)
      by (auto simp: updateOrderStatus_def Let_def commit_def stock_nonneg_parts_eq
          transaction_def stock_nonneg_def split: option.splits)
  qed
  ultimately show ?thesis by simp
qed

lemma cancelOrder_invariant:
  assumes "stock_nonneg d" "items_wellformed d"
  shows "stock_nonneg (snd (cancelOrder stamp oid reason d)) \<and>
         items_wellformed (snd (cancelOrder stamp oid reason d))"
proof -
  have items: "list_all (\<lambda>it. 0 \<le> quantity it) (OrderItem_findAll oid (transaction d))"
    using findAll_wellformed[of "transaction d" oid] assms(2) by (simp add: transaction_def)
  have "stock_nonneg (working (cancel_restore loaded (OrderItem_findAll oid (transaction d)) t))"
    if "spare_parts (working t) = spare_parts d" for loaded t
    using cancel_restore_nonneg[OF _ items, of t loaded] that assms(1)
    by (simp add: stock_nonneg_def)
  then show ?thesis
    using assms
    by (auto simp: cancelOrder_def Let_def commit_def rollback_def transaction_def
        items_wellformed_def split: option.splits)
qed

lemma adjustStock_invariant:
  assumes "stock_nonneg d" "items_wellformed d"
  shows "stock_nonneg (snd (adjustStock pid req d)) \<and>
         items_wellformed (snd (adjustStock pid req d))"
  using assms
  by (auto simp: adjustStock_def Let_def stock_nonneg_def items_wellformed_def
      split: option.splits)

lemma apply_operation_invariant:
  assumes "stock_nonneg d" "items_wellformed d"
  shows "stock_nonneg (apply_operation x d) \<and> items_wellformed (apply_operation x d)"
  using assms
  by (cases x)
     (simp_all add: createOrder_invariant updateOrderStatus_invariant cancelOrder_invariant
        adjustStock_invariant)

text \<open>
  Claim C4. Stock never goes negative. From a database in which no spare part has a
  negative stock (and no order item a negative quantity, which the OrderItem model
  guarantees of every row), after each operation of any sequence of createOrder,
  updateOrderStatus, cancelOrder and adjustStock calls, applied one at a time and
  whether they succeed or fail, no spare part has a negative stock.
\<close>

theorem stock_never_negative:
  assumes "stock_nonneg d" "items_wellformed d"
  shows "list_all stock_nonneg (states_after ops d)"
  using assms
proof (induction ops arbitrary: d)
  case Nil
  then show ?case by simp
next
  case (Cons x xs)
  have "stock_nonneg (apply_operation x d) \<and> items_wellformed (apply_operation x d)"
    using Cons.prems by (rule apply_operation_invariant)
  then show ?case using Cons.IH by simp
qed


theorem stock_never_negative_witness:
  "stock_nonneg shop \<and> items_wellformed shop \<and>
   list_all stock_nonneg
     (states_after
        [CreateOrder env1 (order_of 1 (Some 1) [(1, 2)]),
         AdjustStock 1 \<lparr>a_quantity = 9, a_operation = ''subtract''\<rparr>,
         UpdateOrderStatus ''2024-05-01T10:00:00.000Z'' 1 (status_req PROCESSING),
         CancelOrder ''2024-05-02T10:00:00.000Z'' 1 None,
         AdjustStock 2 \<lparr>a_quantity = 1, a_operation = ''subtract''\<rparr>]
        shop)"
proof -
  have s: "stock_nonneg shop" by (simp add: stock_nonneg_def shop_def)
  have i: "items_wellformed shop" by (simp add: items_wellformed_def shop_def)
  show ?thesis using s i stock_never_negative[OF s i] by blast
qed

section \<open>Orders and the status of their car\<close>

lemma new_carStatus_not_AVAILABLE: "new_carStatus st previousStatus \<noteq> Some AVAILABLE"
  by (cases previousStatus) (simp_all add: new_carStatus_def)

text \<open>
  Claim C3, evaluated on the code. The claim: updateOrderStatus with new status CANCELLED,
  on an order that is PENDING or PROCESSING, gives the stock of the items back and sets
  the car that was reserved for the order back to AVAILABLE. The code gives the stock
  back but never sets a car to AVAILABLE: the guard compares the previous status of the
  order with \<open>'RESERVED'\<close>, which no order status equals. On the database \<open>booked\<close>
  (the shop after createOrder reserved car 1 for order 1), the order ends CANCELLED and
  car 1 is still RESERVED.
\<close>

theorem updateOrderStatus_cancel_keeps_car_reserved:
  "(\<forall>st previousStatus. new_carStatus st previousStatus \<noteq> Some AVAILABLE) \<and>
   createOrder env1 (order_of 1 (Some 1) [(1, 2)]) shop = (Inr 1, booked) \<and>
   map_option status (orders booked 1) = Some PENDING \<and>
   cars booked 1 = Some \<lparr>carStatus = RESERVED\<rparr> \<and>
   \<not> isl (fst (updateOrderStatus ''2024-05-01T10:00:00.000Z'' 1 (status_req CANCELLED) booked)) \<and>
   map_option status
     (orders (snd (updateOrderStatus ''2024-05-01T10:00:00.000Z'' 1 (status_req CANCELLED) booked)) 1)
     = Some CANCELLED \<and>
   spare_parts (snd (updateOrderStatus ''2024-05-01T10:00:00.000Z'' 1 (status_req CANCELLED) booked)) 1
     = Some \<lparr>stock = 5, minStockLevel = 5\<rparr> \<and>
   cars (snd (updateOrderStatus ''2024-05-01T10:00:00.000Z'' 1 (status_req CANCELLED) booked)) 1
     = Some \<lparr>carStatus = RESERVED\<rparr>"
proof -
  have car: "cars (snd (updateOrderStatus ''2024-05-01T10:00:00.000Z'' 1 (status_req CANCELLED) booked)) 1
     = Some \<lparr>carStatus = RESERVED\<rparr>"
    by (simp add: updateOrderStatus_def transaction_def Let_def commit_def booked_def order1_def
        status_req_def status_side_effects_def new_carStatus_def has_updateData_def)
  have o: "orders booked 1 = Some order1" by (simp add: booked_def)
  have st: "map_option status
     (orders (snd (updateOrderStatus ''2024-05-01T10:00:00.000Z'' 1 (status_req CANCELLED) booked)) 1)
     = Some CANCELLED"
    by (simp add: updateOrderStatus_orders[OF o] updateData_status status_req_def)
  have ok: "\<not> isl (fst (updateOrderStatus ''2024-05-01T10:00:00.000Z'' 1 (status_req CANCELLED) booked))"
    by (simp add: updateOrderStatus_result[OF o])
  show ?thesis
    using car st ok createOrder_shop_booked new_carStatus_not_AVAILABLE cancel_booked_part1
    by (simp add: booked_def order1_def)
qed

text \<open>
  Claim C2, evaluated on the code. The claim: a cancellation sets the car of the order to
  AVAILABLE only if the car was RESERVED for this order, and a car in another status,
  MAINTENANCE or SOLD, is not set to AVAILABLE. cancelOrder sets the car to AVAILABLE
  without looking at its status, where updateOrderStatus guards the same assignment with
  a test for \<open>'RESERVED'\<close>. Here the order is PENDING, its car has been put in
  MAINTENANCE, and the cancellation makes the car AVAILABLE.
\<close>

theorem cancelOrder_frees_car_in_maintenance:
  "map_option status (orders in_workshop 1) = Some PENDING \<and>
   map_option carId (orders in_workshop 1) = Some (Some 1) \<and>
   cars in_workshop 1 = Some \<lparr>carStatus = MAINTENANCE\<rparr> \<and>
   \<not> isl (fst (cancelOrder ''2024-05-01T10:00:00.000Z'' 1 None in_workshop)) \<and>
   cars (snd (cancelOrder ''2024-05-01T10:00:00.000Z'' 1 None in_workshop)) 1
     = Some \<lparr>carStatus = AVAILABLE\<rparr>"
  by (simp add: cancelOrder_def transaction_def Let_def commit_def in_workshop_def booked_def
      order1_def Car_findByPk_def Car_update_status_cars)

lemma process_items_cars:
  "process_items oid items t = Inr t' \<Longrightarrow> cars (working t') = cars (working t)"
proof (induction items arbitrary: t)
  case Nil
  then show ?case by simp
next
  case (Cons x xs)
  from Cons.prems obtain pid p t1 t2 where
    x: "i_sparePartId x = Some pid" "spare_parts (working t) pid = Some p"
    and t1: "OrderItem_create \<lparr>orderId = oid, sparePartId = Some pid, quantity = i_quantity x,
                          unitPrice = i_unitPrice x,
                          totalPrice = i_unitPrice x * of_int (i_quantity x)
                                        - default_to 0 (i_discount x),
                          discount = default_to 0 (i_discount x)\<rparr> t = Inr t1"
    and t2: "SparePart_update_stock pid (stock p - i_quantity x) t1 = Inr t2"
    and rest: "process_items oid xs t2 = Inr t'"
    by (auto simp: SparePart_findByPk_def split: option.splits if_splits sum.splits)
  have "cars (working t1) = cars (working t)"
    using t1 by (auto simp: OrderItem_create_def Let_def split: if_splits)
  moreover have "cars (working t2) = cars (working t1)"
    using t2 by (auto simp: SparePart_update_stock_def split: if_splits option.splits)
  ultimately show ?case using Cons.IH[OF rest] by simp
qed

lemma createOrder_reserves_car:
  assumes "fst (createOrder env req d) = Inr oid" "r_carId req = Some c" "c \<noteq> 0"
  shows "map_option carStatus (cars (snd (createOrder env req d)) c) = Some RESERVED"
proof -
  from assms(1) obtain t where body: "createOrder_body env req (transaction d) = Inr t"
    and d': "snd (createOrder env req d) = commit t"
    by (auto simp: createOrder_def split: if_splits sum.splits)
  from body assms(2,3) obtain ord t1 t2 where
    chk: "check_car (Some c) (transaction d) = None"
    and t1: "Order_create (new_order_id env) ord (transaction d) = Inr t1"
    and t2: "process_items (new_order_id env) (r_items req) t1 = Inr t2"
    and t: "t = Car_update_status c RESERVED t2"
    by (auto simp: createOrder_body_def split: if_splits option.splits sum.splits)
  have "cars d c \<noteq> None"
    using chk assms(3)
    by (auto simp: check_car_def Car_findByPk_def transaction_def split: option.splits if_splits)
  moreover have "cars (working t1) = cars d"
    using t1 by (auto simp: Order_create_def transaction_def split: if_splits)
  moreover have "cars (working t2) = cars (working t1)"
    using t2 by (rule process_items_cars)
  ultimately show ?thesis
    unfolding d' t by (auto simp: commit_def Car_update_status_cars)
qed

lemma updateOrderStatus_delivered_sold:
  assumes "orders d oid = Some ord" "carId ord = Some c" "c \<noteq> 0" "cars d c \<noteq> None"
    "u_status req = Some DELIVERED" "status ord \<noteq> DELIVERED"
  shows "map_option carStatus (cars (snd (updateOrderStatus stamp oid req d)) c) = Some SOLD"
  using assms
  by (auto simp: updateOrderStatus_def transaction_def Let_def commit_def
      status_side_effects_def new_carStatus_def Car_update_status_cars split: option.splits)

lemma updateOrderStatus_other_status_cars:
  assumes "orders d oid = Some ord" "u_status req \<noteq> Some DELIVERED"
    "u_status req \<noteq> Some CANCELLED"
  shows "cars (snd (updateOrderStatus stamp oid req d)) = cars d"
  using assms
  by (auto simp: updateOrderStatus_def transaction_def Let_def commit_def
      status_side_effects_def new_carStatus_def split: option.splits)

lemma cancelOrder_frees_car:
  assumes "orders d oid = Some ord" "carId ord = Some c" "c \<noteq> 0" "cars d c \<noteq> None"
    "status ord \<noteq> DELIVERED" "status ord \<noteq> CANCELLED"
  shows "map_option carStatus (cars (snd (cancelOrder stamp oid reason d)) c) = Some AVAILABLE"
  using assms
  by (auto simp: cancelOrder_def transaction_def Let_def commit_def Car_findByPk_def
      Car_update_status_cars)

text \<open>
  What the handlers do to the car of an order otherwise: a successful createOrder leaves
  it RESERVED; updateOrderStatus with a requested status other than DELIVERED and
  CANCELLED (or none) changes no car; updateOrderStatus that changes the status to
  DELIVERED sets it to SOLD; a successful cancelOrder sets it to AVAILABLE.
\<close>

lemma order_drives_car_status:
  "(\<forall>oid' c. fst (createOrder env ordreq d) = Inr oid' \<and> r_carId ordreq = Some c \<and> c \<noteq> 0 \<longrightarrow>
       map_option carStatus (cars (snd (createOrder env ordreq d)) c) = Some RESERVED) \<and>
   (\<forall>ord. orders d oid = Some ord \<and> u_status req \<noteq> Some DELIVERED \<and>
          u_status req \<noteq> Some CANCELLED \<longrightarrow>
       cars (snd (updateOrderStatus stamp oid req d)) = cars d) \<and>
   (\<forall>ord c. orders d oid = Some ord \<and> carId ord = Some c \<and> c \<noteq> 0 \<and> cars d c \<noteq> None \<and>
          u_status req = Some DELIVERED \<and> status ord \<noteq> DELIVERED \<longrightarrow>
       map_option carStatus (cars (snd (updateOrderStatus stamp oid req d)) c) = Some SOLD) \<and>
   (\<forall>ord c. orders d oid = Some ord \<and> carId ord = Some c \<and> c \<noteq> 0 \<and> cars d c \<noteq> None \<and>
          status ord \<noteq> DELIVERED \<and> status ord \<noteq> CANCELLED \<longrightarrow>
       map_option carStatus (cars (snd (cancelOrder stamp oid reason d)) c) = Some AVAILABLE)"
  using createOrder_reserves_car[of env ordreq d] updateOrderStatus_other_status_cars[of d oid _ req stamp]
    updateOrderStatus_delivered_sold[of d oid _ _ req stamp]
    cancelOrder_frees_car[of d oid _ _ stamp reason]
  by blast


section \<open>Properties of the service controller\<close>

lemma answer_with_service_NoAnswer [simp]: "answer_with_service x = Inl NoAnswer"
  by (simp add: answer_with_service_def service_car_attributes_def Car_columns_def)



































end
